theory Spec2Isabelle
  imports Complex_Main "HOL-Library.AList"
begin

section \<open>Python text primitives used by the services\<close>

text \<open>
  Text is a \<open>string\<close> whose characters stand for the code points below 256. The
  functions below are the behaviour of \<^verbatim>\<open>str.isspace\<close>, \<^verbatim>\<open>str.strip\<close>,
  \<^verbatim>\<open>str.lower\<close>, \<^verbatim>\<open>str.split\<close> (no argument), \<^verbatim>\<open>str.join\<close>,
  \<^verbatim>\<open>str.replace\<close> (one character) and \<^verbatim>\<open>str.startswith\<close> on that range.
\<close>

definition isspace :: "char \<Rightarrow> bool" where
  "isspace c = (c \<in> set [CHR 0x09, CHR 0x0A, CHR 0x0B, CHR 0x0C, CHR 0x0D, CHR 0x1C, CHR 0x1D,
                          CHR 0x1E, CHR 0x1F, CHR 0x20, CHR 0x85, CHR 0xA0])"

definition strip :: "string \<Rightarrow> string" where
  "strip s = rev (dropWhile isspace (rev (dropWhile isspace s)))"

definition upper_letters :: "string" where
  "upper_letters = ''ABCDEFGHIJKLMNOPQRSTUVWXYZ'' @
     [CHR 0xC0, CHR 0xC1, CHR 0xC2, CHR 0xC3, CHR 0xC4, CHR 0xC5, CHR 0xC6, CHR 0xC7,
      CHR 0xC8, CHR 0xC9, CHR 0xCA, CHR 0xCB, CHR 0xCC, CHR 0xCD, CHR 0xCE, CHR 0xCF,
      CHR 0xD0, CHR 0xD1, CHR 0xD2, CHR 0xD3, CHR 0xD4, CHR 0xD5, CHR 0xD6,
      CHR 0xD8, CHR 0xD9, CHR 0xDA, CHR 0xDB, CHR 0xDC, CHR 0xDD, CHR 0xDE]"

definition lower_letters :: "string" where
  "lower_letters = ''abcdefghijklmnopqrstuvwxyz'' @
     [CHR 0xE0, CHR 0xE1, CHR 0xE2, CHR 0xE3, CHR 0xE4, CHR 0xE5, CHR 0xE6, CHR 0xE7,
      CHR 0xE8, CHR 0xE9, CHR 0xEA, CHR 0xEB, CHR 0xEC, CHR 0xED, CHR 0xEE, CHR 0xEF,
      CHR 0xF0, CHR 0xF1, CHR 0xF2, CHR 0xF3, CHR 0xF4, CHR 0xF5, CHR 0xF6,
      CHR 0xF8, CHR 0xF9, CHR 0xFA, CHR 0xFB, CHR 0xFC, CHR 0xFD, CHR 0xFE]"

definition lower_char :: "char \<Rightarrow> char" where
  "lower_char c = (case map_of (zip upper_letters lower_letters) c of None \<Rightarrow> c | Some l \<Rightarrow> l)"

definition lower :: "string \<Rightarrow> string" where
  "lower s = map lower_char s"

fun split_from :: "string \<Rightarrow> string \<Rightarrow> string list" where
  "split_from cur [] = (if cur = [] then [] else [rev cur])"
| "split_from cur (c # cs) =
     (if isspace c
      then (if cur = [] then split_from [] cs else rev cur # split_from [] cs)
      else split_from (c # cur) cs)"

definition split :: "string \<Rightarrow> string list" where
  "split s = split_from [] s"

fun join :: "string \<Rightarrow> string list \<Rightarrow> string" where
  "join sep [] = []"
| "join sep [x] = x"
| "join sep (x # y # ys) = x @ sep @ join sep (y # ys)"

definition replace_char :: "char \<Rightarrow> char \<Rightarrow> string \<Rightarrow> string" where
  "replace_char old new s = map (\<lambda>c. if c = old then new else c) s"

definition startswith :: "string \<Rightarrow> string \<Rightarrow> bool" where
  "startswith s p = (take (length p) s = p)"

text \<open>
  \<^verbatim>\<open>Path(name).suffix\<close> for a POSIX path: the last component of the path that is
  neither empty nor \<^verbatim>\<open>.\<close> is the file name; its suffix starts at the last dot, unless
  that dot is the first or the last character of the name.
\<close>

fun split_on :: "char \<Rightarrow> string \<Rightarrow> string \<Rightarrow> string list" where
  "split_on d cur [] = [rev cur]"
| "split_on d cur (c # cs) =
     (if c = d then rev cur # split_on d [] cs else split_on d (c # cur) cs)"

definition path_name :: "string \<Rightarrow> string" where
  "path_name p =
     (case rev (filter (\<lambda>part. part \<noteq> [] \<and> part \<noteq> ''.'') (split_on CHR ''/'' [] p)) of
        [] \<Rightarrow> []
      | n # _ \<Rightarrow> n)"

definition suffix :: "string \<Rightarrow> string" where
  "suffix p =
     (let name = path_name p;
          tail = takeWhile (\<lambda>c. c \<noteq> CHR ''.'') (rev name)
      in if length tail = length name then []
         else if tail = [] then []
         else if Suc (length tail) = length name then []
         else CHR ''.'' # rev tail)"

section \<open>uploads.py: configuration and errors\<close>

definition ALLOWED_EXTENSIONS :: "string list" where
  "ALLOWED_EXTENSIONS = [''.jpg'', ''.jpeg'', ''.png'', ''.bmp'', ''.tiff'', ''.webp'']"

record config =
  MAX_FILE_SIZE :: nat
  USE_OCR :: bool

subsection \<open>run_ocr\<close>

text \<open>
  The OCR engine is a collaborator: its answer is an input of the model. A call either
  raises or returns a list of pages; a page is \<^verbatim>\<open>None\<close> or a list of lines; a line
  that passes the guard \<^verbatim>\<open>line and len(line) >= 2 and line[1]\<close> carries a pair
  (text, confidence), any other line is \<open>None\<close>. A confidence is a binary fraction,
  and the comparison with \<^verbatim>\<open>0.5\<close> is exact, so confidences are reals here.
\<close>

type_synonym ocr_line = "(string \<times> real) option"

datatype ocr_outcome = OcrRaises | OcrResults "ocr_line list option list"

fun collect_lines :: "string list \<Rightarrow> ocr_line list \<Rightarrow> string list" where
  "collect_lines lines [] = lines"
| "collect_lines lines (None # rest) = collect_lines lines rest"
| "collect_lines lines (Some (text, confidence) # rest) =
     (if confidence > 0.5 then collect_lines (lines @ [text]) rest
      else collect_lines lines rest)"

definition run_ocr :: "config \<Rightarrow> ocr_outcome \<Rightarrow> string option" where
  "run_ocr cfg outcome =
     (if \<not> USE_OCR cfg then None
      else case outcome of
        OcrRaises \<Rightarrow> None
      | OcrResults [] \<Rightarrow> None
      | OcrResults (None # _) \<Rightarrow> None
      | OcrResults (Some [] # _) \<Rightarrow> None
      | OcrResults (Some page # _) \<Rightarrow>
          (let lines = collect_lines [] page
           in if lines = [] then None else Some (join '' '' lines)))"

text \<open>The stored text of a prediction: \<^verbatim>\<open>prediction or ""\<close>.\<close>

definition or_empty :: "string option \<Rightarrow> string" where
  "or_empty p = (case p of None \<Rightarrow> [] | Some t \<Rightarrow> t)"

subsection \<open>The label store\<close>

text \<open>
  A sample record has the fields of \<^verbatim>\<open>UploadMetadata\<close>, which are the keys that
  \<^verbatim>\<open>upload_file\<close> writes, and the two review times that the review endpoints add.
  The fields \<^verbatim>\<open>id\<close>, \<^verbatim>\<open>file\<close> and \<^verbatim>\<open>notes\<close> are called \<open>id_field\<close>,
  \<open>file_field\<close> and \<open>notes_field\<close> here. The store \<^verbatim>\<open>labels\<close> is a Python
  dict from id to record: an association list in insertion order.
\<close>

record upload_metadata =
  id_field :: string
  file_field :: string
  orig_name :: string
  provided_text :: string
  predicted_text :: string
  corrected_text :: string
  status :: string
  notes_field :: string
  upload_time :: string
  file_size :: nat
  file_hash :: string
  approval_time :: "string option"
  rejection_time :: "string option"

type_synonym labels = "(string \<times> upload_metadata) list"

text \<open>
  A file of the data directory holds a JSON document of records, or text that
  \<^verbatim>\<open>json.load\<close> rejects with \<^verbatim>\<open>JSONDecodeError\<close>.
\<close>

datatype doc = Json labels | Malformed string

text \<open>
  The state of the service: the dict \<^verbatim>\<open>data_manager.labels\<close> in memory, the files of
  \<^verbatim>\<open>DATA_DIR\<close>, and the files of \<^verbatim>\<open>IMAGES_DIR\<close> and \<^verbatim>\<open>APPROVED_DIR\<close> by name.
\<close>

record server =
  labels :: labels
  data_files :: "string \<rightharpoonup> doc"
  images :: "string \<rightharpoonup> string"
  approved :: "string \<rightharpoonup> string"

text \<open>
  An \<^verbatim>\<open>HTTPException\<close> carries its status code and its detail (the two formatted
  details are cut after their fixed first sentence). \<open>OSError\<close> is an exception of a
  file operation that no handler of the source catches.
\<close>

datatype exn = HTTPException nat string | OSError

definition LABELS_FILE :: string where
  "LABELS_FILE = ''labels.json''"

definition with_suffix :: "string \<Rightarrow> string \<Rightarrow> string" where
  "with_suffix p suf = take (length p - length (suffix p)) p @ suf"

text \<open>
  \<^verbatim>\<open>save_labels\<close> writes the dict to a temporary file and replaces the labels file by
  it. When a step raises, the temporary file is unlinked and the exception is raised
  again; the flag says whether a step raises.
\<close>

definition save_labels :: "bool \<Rightarrow> server \<Rightarrow> (exn + unit) \<times> server" where
  "save_labels raises s =
     (let temp_file = with_suffix LABELS_FILE ''.tmp''
      in if raises
         then (Inl OSError, s\<lparr>data_files := (data_files s)(temp_file := None)\<rparr>)
         else (Inr (),
               s\<lparr>data_files := (data_files s)(temp_file := None, LABELS_FILE \<mapsto> Json (labels s))\<rparr>))"

definition add_upload :: "bool \<Rightarrow> string \<Rightarrow> upload_metadata \<Rightarrow> server \<Rightarrow> (exn + unit) \<times> server" where
  "add_upload raises upload_id metadata s =
     save_labels raises (s\<lparr>labels := AList.update upload_id metadata (labels s)\<rparr>)"

definition update_upload ::
  "bool \<Rightarrow> string \<Rightarrow> (upload_metadata \<Rightarrow> upload_metadata) \<Rightarrow> server \<Rightarrow> (exn + bool) \<times> server" where
  "update_upload raises upload_id updates s =
     (if upload_id \<notin> set (map fst (labels s)) then (Inr False, s)
      else case save_labels raises (s\<lparr>labels := AList.map_entry upload_id updates (labels s)\<rparr>) of
             (Inl e, s') \<Rightarrow> (Inl e, s')
           | (Inr _, s') \<Rightarrow> (Inr True, s'))"

definition get_upload :: "string \<Rightarrow> server \<Rightarrow> upload_metadata option" where
  "get_upload upload_id s = map_of (labels s) upload_id"

subsection \<open>Loading the store\<close>

text \<open>
  The inputs of \<^verbatim>\<open>_load_labels\<close> besides the data directory: whether opening or
  reading the file raises something other than \<^verbatim>\<open>JSONDecodeError\<close>, the formatted
  time \<^verbatim>\<open>datetime.now().strftime('%Y%m%d_%H%M%S')\<close>, and whether the rename of the
  corrupted file raises. The rename stands in the handler of \<^verbatim>\<open>JSONDecodeError\<close>,
  outside every \<^verbatim>\<open>try\<close>, so its exception leaves the function.
\<close>

record load_env =
  open_raises :: bool
  stamp :: string
  backup_rename_raises :: bool

definition backup_file :: "string \<Rightarrow> string" where
  "backup_file st = with_suffix LABELS_FILE (''.backup.'' @ st @ ''.json'')"

definition load_labels :: "load_env \<Rightarrow> (string \<rightharpoonup> doc) \<Rightarrow> (exn + labels) \<times> (string \<rightharpoonup> doc)" where
  "load_labels env files =
     (case files LABELS_FILE of
        None \<Rightarrow> (Inr [], files)
      | Some d \<Rightarrow>
          if open_raises env then (Inr [], files)
          else (case d of
                  Json ls \<Rightarrow> (Inr ls, files)
                | Malformed _ \<Rightarrow>
                    (if backup_rename_raises env then (Inl OSError, files)
                     else (Inr [], (files(LABELS_FILE := None))(backup_file (stamp env) \<mapsto> d)))))"

subsection \<open>validate_file and upload_file\<close>

text \<open>
  An \<^verbatim>\<open>UploadFile\<close>: the client's file name and content type (both optional), the
  \<^verbatim>\<open>size\<close> attribute when there is one, and the bytes that \<^verbatim>\<open>read()\<close> returns.
\<close>

record upload =
  filename :: "string option"
  content_type :: "string option"
  size_attr :: "nat option"
  contents :: string

definition validate_file :: "config \<Rightarrow> upload \<Rightarrow> exn + unit" where
  "validate_file cfg f =
     (case filename f of
        None \<Rightarrow> Inl (HTTPException 400 ''No filename provided'')
      | Some name \<Rightarrow>
          if name = [] then Inl (HTTPException 400 ''No filename provided'')
          else if lower (suffix name) \<notin> set ALLOWED_EXTENSIONS
          then Inl (HTTPException 400 ''Invalid file type'')
          else (case size_attr f of
                  None \<Rightarrow> Inr ()
                | Some n \<Rightarrow>
                    if n \<noteq> 0 \<and> n > MAX_FILE_SIZE cfg
                    then Inl (HTTPException 413 ''File too large'')
                    else Inr ()))"

text \<open>
  What \<^verbatim>\<open>upload_file\<close> takes from outside: whether \<^verbatim>\<open>file.read()\<close> raises, the
  string of \<^verbatim>\<open>uuid.uuid4()\<close>, the answer of the OCR engine, whether writing the
  image, saving the labels or unlinking the image raises, and the time. The hash
  function \<^verbatim>\<open>hashlib.sha256(content).hexdigest()\<close> is the parameter \<open>H\<close>.
\<close>

record upload_env =
  read_raises :: bool
  uuid4 :: string
  ocr :: ocr_outcome
  write_raises :: bool
  save_raises :: bool
  unlink_raises :: bool
  now :: string

record upload_response =
  success :: bool
  upload_id :: string
  predicted :: "string option"
  message :: string

fun find_duplicate :: "string \<Rightarrow> labels \<Rightarrow> (string \<times> upload_metadata) option" where
  "find_duplicate h [] = None"
| "find_duplicate h ((existing_id, existing_data) # rest) =
     (if file_hash existing_data = h then Some (existing_id, existing_data)
      else find_duplicate h rest)"

definition mime_to_ext :: "(string \<times> string) list" where
  "mime_to_ext =
     [(''image/jpeg'', ''.jpg''), (''image/jpg'', ''.jpg''), (''image/png'', ''.png''),
      (''image/bmp'', ''.bmp''), (''image/tiff'', ''.tiff''), (''image/webp'', ''.webp'')]"

definition resolve_ext :: "upload \<Rightarrow> string" where
  "resolve_ext f =
     (let ctype = (case content_type f of None \<Rightarrow> [] | Some c \<Rightarrow> c)
      in if startswith ctype ''image/''
         then (case map_of mime_to_ext ctype of None \<Rightarrow> ''.jpg'' | Some e \<Rightarrow> e)
         else (let ext = (case filename f of
                            None \<Rightarrow> ''.jpg''
                          | Some name \<Rightarrow> if name = [] then ''.jpg'' else lower (suffix name))
               in if ext \<notin> set ALLOWED_EXTENSIONS then ''.jpg'' else ext))"

definition create_metadata ::
  "upload_env \<Rightarrow> upload \<Rightarrow> string option \<Rightarrow> string \<Rightarrow> string \<Rightarrow> string option \<Rightarrow> upload_metadata" where
  "create_metadata env f text save_name hash prediction =
     \<lparr>id_field = uuid4 env, file_field = save_name,
      orig_name = (case filename f of None \<Rightarrow> [] | Some n \<Rightarrow> n),
      provided_text = or_empty text,
      predicted_text = or_empty prediction,
      corrected_text = [], status = ''pending'', notes_field = [],
      upload_time = now env, file_size = length (contents f),
      file_hash = hash, approval_time = None, rejection_time = None\<rparr>"

definition upload_file ::
  "(string \<Rightarrow> string) \<Rightarrow> config \<Rightarrow> upload_env \<Rightarrow> upload \<Rightarrow> string option \<Rightarrow> server
     \<Rightarrow> (exn + upload_response) \<times> server" where
  "upload_file H cfg env f text s =
     (case validate_file cfg f of
        Inl e \<Rightarrow> (Inl e, s)
      | Inr _ \<Rightarrow>
     if read_raises env then (Inl (HTTPException 400 ''Failed to read file''), s)
     else if length (contents f) = 0 then (Inl (HTTPException 400 ''Empty file''), s)
     else if length (contents f) > MAX_FILE_SIZE cfg
     then (Inl (HTTPException 413 ''File too large''), s)
     else
       (let new_id = uuid4 env; hash = H (contents f)
        in case find_duplicate hash (labels s) of
             Some (existing_id, existing_data) \<Rightarrow>
               (Inr \<lparr>success = True, upload_id = existing_id,
                     predicted = Some (predicted_text existing_data),
                     message = ''File already exists in system''\<rparr>, s)
           | None \<Rightarrow>
               (let save_name = new_id @ resolve_ext f
                in if write_raises env then (Inl (HTTPException 500 ''Failed to save file''), s)
                   else
                     (let s1 = s\<lparr>images := (images s)(save_name \<mapsto> contents f)\<rparr>;
                          prediction = (if USE_OCR cfg then run_ocr cfg (ocr env) else None);
                          metadata = create_metadata env f text save_name hash prediction
                      in case add_upload (save_raises env) new_id metadata s1 of
                           (Inl e, s2) \<Rightarrow>
                             if unlink_raises env then (Inl OSError, s2)
                             else (Inl (HTTPException 500 ''Failed to save upload metadata''),
                                   s2\<lparr>images := (images s2)(save_name := None)\<rparr>)
                         | (Inr _, s2) \<Rightarrow>
                             (Inr \<lparr>success = True, upload_id = new_id, predicted = prediction,
                                   message = ''Upload successful''\<rparr>, s2)))))"

subsection \<open>admin_approve_upload\<close>

text \<open>
  The body of the endpoint (the token dependency runs before it); the fields
  \<^verbatim>\<open>success\<close> and \<^verbatim>\<open>message\<close> of its response are called \<open>admin_success\<close>
  and \<open>admin_message\<close>. From outside:
  whether the rename to the approved directory raises, whether saving the labels
  raises, whether the rename back raises, and the time. A rename replaces a file of
  the same name at the destination, as \<^verbatim>\<open>Path.rename\<close> does on POSIX.
\<close>

record approve_env =
  rename_raises :: bool
  update_raises :: bool
  rename_back_raises :: bool
  approve_now :: string

record admin_response =
  admin_success :: bool
  admin_message :: string

definition admin_approve_upload ::
  "approve_env \<Rightarrow> string \<Rightarrow> string \<Rightarrow> server \<Rightarrow> (exn + admin_response) \<times> server" where
  "admin_approve_upload env upload_id0 corrected_text0 s =
     (if upload_id0 = [] \<or> strip upload_id0 = []
      then (Inl (HTTPException 400 ''Upload ID is required''), s)
      else if corrected_text0 = [] \<or> strip corrected_text0 = []
      then (Inl (HTTPException 400 ''Corrected text is required''), s)
      else
        (let upload_id = strip upload_id0; corrected = strip corrected_text0
         in case get_upload upload_id s of
              None \<Rightarrow> (Inl (HTTPException 404 ''Upload not found''), s)
            | Some entry \<Rightarrow>
                (case images s (file_field entry) of
                   None \<Rightarrow> (Inl (HTTPException 404 ''Source file not found''), s)
                 | Some bytes \<Rightarrow>
                     if rename_raises env
                     then (Inl (HTTPException 500 ''Failed to move file''), s)
                     else
                       (let s1 = s\<lparr>images := (images s)(file_field entry := None),
                                   approved := (approved s)(file_field entry \<mapsto> bytes)\<rparr>;
                            updates = (\<lambda>e. e\<lparr>status := ''approved'', corrected_text := corrected,
                                              notes_field := ''approved by admin'',
                                              approval_time := Some (approve_now env)\<rparr>)
                        in case update_upload (update_raises env) upload_id updates s1 of
                             (Inl e, s2) \<Rightarrow>
                               (Inl (HTTPException 500 ''Failed to update upload''),
                                if rename_back_raises env then s2
                                else s2\<lparr>approved := (approved s2)(file_field entry := None),
                                        images := (images s2)(file_field entry \<mapsto> bytes)\<rparr>)
                           | (Inr _, s2) \<Rightarrow>
                               (Inr \<lparr>admin_success = True, admin_message = ''Upload approved successfully''\<rparr>, s2)))))"

section \<open>monitor.py: the readiness report\<close>

text \<open>
  \<^verbatim>\<open>generate_training_readiness_report\<close> reads the labels (an empty dict when the
  file is missing or unreadable) and whether \<^verbatim>\<open>train_data/train.txt\<close> exists. With
  no labels it returns the two-key dict \<^verbatim>\<open>{"ready": False, "reason": ...}\<close>, here
  \<open>NoData\<close>; otherwise the full report. The products \<^verbatim>\<open>n * 0.8\<close> and
  \<^verbatim>\<open>n * 0.7\<close> are binary64 numbers; compared with an integer they give what the exact
  products give for every list length below \<open>2^50\<close>, so the model multiplies reals.
\<close>

fun str_nat :: "nat \<Rightarrow> string" where
  "str_nat n =
     (if n < 10 then [''0123456789'' ! n]
      else str_nat (n div 10) @ [''0123456789'' ! (n mod 10)])"

record readiness_report =
  ready :: bool
  total_samples :: nat
  approved_samples :: nat
  minimum_required :: nat
  recommendations :: "string list"
  quality_issues :: "string list"
  training_data_exists :: bool

datatype readiness = NoData bool string | Report readiness_report

definition generate_training_readiness_report :: "bool \<Rightarrow> labels \<Rightarrow> readiness" where
  "generate_training_readiness_report train_txt_exists lbls =
     (if lbls = [] then NoData False ''No data available''
      else
        (let approved = filter (\<lambda>entry. status entry = ''approved'') (map snd lbls);
             report0 = \<lparr>ready = False, total_samples = length lbls,
                        approved_samples = length approved, minimum_required = 100,
                        recommendations = [], quality_issues = [],
                        training_data_exists = train_txt_exists\<rparr>;
             report1 =
               (if length approved < minimum_required report0
                then report0\<lparr>recommendations := recommendations report0 @
                       [''Need at least '' @ str_nat (minimum_required report0) @
                        '' approved samples. Currently have '' @ str_nat (length approved) @ ''.'']\<rparr>
                else report0);
             samples_with_corrections = filter (\<lambda>s. strip (corrected_text s) \<noteq> []) approved;
             report2 =
               (if real (length samples_with_corrections) < real (length approved) * 0.8
                then report1\<lparr>quality_issues := quality_issues report1 @
                       [''Less than 80% of approved samples have corrected text'']\<rparr>
                else report1);
             all_texts = map corrected_text approved;
             unique_texts = remdups (map (\<lambda>text. strip (lower text))
                                         (filter (\<lambda>text. strip text \<noteq> []) all_texts));
             report3 =
               (if real (length unique_texts) < real (length approved) * 0.7
                then report2\<lparr>quality_issues := quality_issues report2 @
                       [''Low text diversity - many duplicate texts detected'']\<rparr>
                else report2)
         in Report (report3\<lparr>ready := (length approved \<ge> minimum_required report3
                                      \<and> length (quality_issues report3) = 0)\<rparr>)))"

text \<open>What a caller reads from either form of the report.\<close>

fun ready_of :: "readiness \<Rightarrow> bool" where
  "ready_of (NoData r _) = r"
| "ready_of (Report rep) = ready rep"

fun recommendations_of :: "readiness \<Rightarrow> string list" where
  "recommendations_of (NoData _ _) = []"
| "recommendations_of (Report rep) = recommendations rep"

fun issues_of :: "readiness \<Rightarrow> string list" where
  "issues_of (NoData _ _) = []"
| "issues_of (Report rep) = quality_issues rep"

section \<open>train.py: preparing the training lists\<close>

definition valid_extensions :: "string list" where
  "valid_extensions = [''.jpg'', ''.jpeg'', ''.png'', ''.bmp'', ''.tiff'', ''.webp'']"

definition validate_image_file :: "(string \<rightharpoonup> string) \<Rightarrow> string \<Rightarrow> bool" where
  "validate_image_file approved_dir img_name =
     (case approved_dir img_name of
        None \<Rightarrow> False
      | Some bytes \<Rightarrow>
          if length bytes = 0 then False
          else if lower (suffix img_name) \<notin> set valid_extensions then False
          else True)"

definition sanitize_text :: "string \<Rightarrow> string" where
  "sanitize_text text0 =
     (if text0 = [] then []
      else
        (let text1 = join '' '' (split text0);
             text2 = replace_char CHR 0x0D CHR '' ''
                       (replace_char CHR 0x0A CHR '' '' (replace_char CHR 0x09 CHR '' '' text1));
             max_length = 1000;
             text3 = (if length text2 > max_length then take max_length text2 else text2)
         in strip text3))"

fun first_text :: "string list \<Rightarrow> string" where
  "first_text [] = []"
| "first_text (text # rest) =
     (if text \<noteq> [] \<and> strip text \<noteq> [] then sanitize_text text else first_text rest)"

definition get_best_text :: "upload_metadata \<Rightarrow> string" where
  "get_best_text entry =
     first_text [corrected_text entry, provided_text entry, predicted_text entry]"

text \<open>
  \<^verbatim>\<open>_copy_with_verification\<close> ends in one of three ways: the copy is made and its
  checksum agrees, the checksums differ and the copy is unlinked, or a step raises.
  Which one happens for the file of a record is an input, given by the record's id. The running values of the loop of
  \<^verbatim>\<open>prepare_training_data\<close> are the fields of \<open>prep\<close>; the preparation report,
  written last inside its own \<^verbatim>\<open>try\<close>, is left out.
\<close>

datatype copy_outcome = Copied | VerifyFailed | CopyRaises

record prep =
  train_list :: "string list"
  successful_copies :: nat
  total_approved :: nat
  skipped_samples :: "(string \<times> string) list"
  output_dir :: "string \<rightharpoonup> string"

record prep_env =
  labels_loaded :: "labels option"
  approved_dir :: "string \<rightharpoonup> string"
  copy_result :: "string \<Rightarrow> copy_outcome"
  train_write_raises :: bool
  val_write_raises :: bool

fun prepare_loop :: "prep_env \<Rightarrow> labels \<Rightarrow> prep \<Rightarrow> prep" where
  "prepare_loop env [] st = st"
| "prepare_loop env ((entry_id, entry) # rest) st =
     (if status entry \<noteq> ''approved'' then prepare_loop env rest st
      else
        (let st1 = st\<lparr>total_approved := total_approved st + 1\<rparr>;
             img_name = file_field entry
         in if img_name = []
            then prepare_loop env rest
                   (st1\<lparr>skipped_samples := skipped_samples st1 @ [(entry_id, ''No filename'')]\<rparr>)
            else
              (let text = get_best_text entry
               in if text = []
                  then prepare_loop env rest
                         (st1\<lparr>skipped_samples := skipped_samples st1 @ [(entry_id, ''No valid text'')]\<rparr>)
                  else if \<not> validate_image_file (approved_dir env) img_name
                  then prepare_loop env rest
                         (st1\<lparr>skipped_samples := skipped_samples st1 @ [(entry_id, ''Invalid image file'')]\<rparr>)
                  else
                    (case copy_result env entry_id of
                       Copied \<Rightarrow>
                         prepare_loop env rest
                           (st1\<lparr>output_dir := (output_dir st1)(img_name := approved_dir env img_name),
                                 train_list := train_list st1 @ [img_name @ [CHR 0x09] @ text],
                                 successful_copies := successful_copies st1 + 1\<rparr>)
                     | VerifyFailed \<Rightarrow>
                         prepare_loop env rest
                           (st1\<lparr>output_dir := (output_dir st1)(img_name := None),
                                 skipped_samples := skipped_samples st1 @ [(entry_id, ''File copy failed'')]\<rparr>)
                     | CopyRaises \<Rightarrow>
                         prepare_loop env rest
                           (st1\<lparr>skipped_samples := skipped_samples st1 @ [(entry_id, ''File copy failed'')]\<rparr>)))))"

definition prepare_training_data :: "prep_env \<Rightarrow> (string \<rightharpoonup> string) \<Rightarrow> (nat \<times> nat) \<times> (string \<rightharpoonup> string)" where
  "prepare_training_data env out0 =
     (case labels_loaded env of
        None \<Rightarrow> ((0, 0), out0)
      | Some lbls \<Rightarrow>
          (let st = prepare_loop env lbls
                      \<lparr>train_list = [], successful_copies = 0, total_approved = 0,
                       skipped_samples = [], output_dir = out0\<rparr>;
               listing = join [CHR 0x0A] (train_list st)
           in if train_write_raises env then ((0, total_approved st), output_dir st)
              else
                (let out1 = (output_dir st)(''train.txt'' \<mapsto> listing);
                     out2 = (if val_write_raises env then out1 else out1(''val.txt'' \<mapsto> listing))
                 in ((successful_copies st, total_approved st), out2))))"

section \<open>The properties as the specification words them\<close>

text \<open>
  The specification's reading of the OCR threshold: a line is kept when its confidence
  is not below 0.5.
\<close>

definition predicted_text_spec :: "(string \<times> real) list \<Rightarrow> string" where
  "predicted_text_spec lines =
     join '' '' (map fst (filter (\<lambda>(text, confidence). \<not> confidence < 0.5) lines))"

text \<open>
  The specification's extension resolution: the MIME table first, the extension of the
  client's file name when the content type is absent or not in the table, the default
  when neither gives an allowed extension.
\<close>

definition resolve_ext_spec :: "upload \<Rightarrow> string" where
  "resolve_ext_spec f =
     (case (case content_type f of None \<Rightarrow> None | Some c \<Rightarrow> map_of mime_to_ext c) of
        Some e \<Rightarrow> e
      | None \<Rightarrow>
          (let ext = (case filename f of None \<Rightarrow> [] | Some name \<Rightarrow> lower (suffix name))
           in if ext \<in> set ALLOWED_EXTENSIONS then ext else ''.jpg''))"

text \<open>
  The specification's validation order: empty content, then content above the maximum
  size, then an extension outside the allow-list.
\<close>

definition validation_order_spec :: "config \<Rightarrow> upload \<Rightarrow> exn option" where
  "validation_order_spec cfg f =
     (if length (contents f) = 0 then Some (HTTPException 400 ''Empty file'')
      else if length (contents f) > MAX_FILE_SIZE cfg then Some (HTTPException 413 ''File too large'')
      else if (case filename f of None \<Rightarrow> [] | Some name \<Rightarrow> lower (suffix name))
                \<notin> set ALLOWED_EXTENSIONS
      then Some (HTTPException 400 ''Invalid file type'')
      else None)"

text \<open>
  An upload passes validation when \<^verbatim>\<open>validate_file\<close> returns, the content is read,
  and the content is neither empty nor above the maximum size.
\<close>

definition passes_validation :: "config \<Rightarrow> upload_env \<Rightarrow> upload \<Rightarrow> bool" where
  "passes_validation cfg env f =
     (validate_file cfg f = Inr () \<and> \<not> read_raises env \<and> contents f \<noteq> []
      \<and> length (contents f) \<le> MAX_FILE_SIZE cfg)"

text \<open>
  The ids of a store are trimmed when none has leading or trailing whitespace. The
  only ids that enter the store are the strings of \<^verbatim>\<open>uuid.uuid4()\<close>, which are
  hexadecimal digits and hyphens.
\<close>

definition ids_trimmed :: "labels \<Rightarrow> bool" where
  "ids_trimmed lbls = list_all (\<lambda>k. strip k = k) (map fst lbls)"

text \<open>
  A record is successfully prepared when it is approved, names a file, has a text to
  train on, its image passes the check of the approved directory, and the copy is
  made and verified.
\<close>

definition prepared :: "prep_env \<Rightarrow> string \<times> upload_metadata \<Rightarrow> bool" where
  "prepared env = (\<lambda>(entry_id, entry).
     status entry = ''approved'' \<and> file_field entry \<noteq> [] \<and> get_best_text entry \<noteq> []
     \<and> validate_image_file (approved_dir env) (file_field entry)
     \<and> copy_result env entry_id = Copied)"

text \<open>The three clauses of the readiness policy.\<close>

definition approved_records :: "labels \<Rightarrow> upload_metadata list" where
  "approved_records lbls = filter (\<lambda>entry. status entry = ''approved'') (map snd lbls)"

definition minimum_count_clause :: "labels \<Rightarrow> bool" where
  "minimum_count_clause lbls = (100 \<le> length (approved_records lbls))"

definition corrected_text_clause :: "labels \<Rightarrow> bool" where
  "corrected_text_clause lbls =
     (real (length (filter (\<lambda>e. strip (corrected_text e) \<noteq> []) (approved_records lbls)))
        \<ge> 0.8 * real (length (approved_records lbls)))"

definition diversity_clause :: "labels \<Rightarrow> bool" where
  "diversity_clause lbls =
     (real (card (set (map (\<lambda>e. strip (lower (corrected_text e)))
                           (filter (\<lambda>e. strip (corrected_text e) \<noteq> []) (approved_records lbls)))))
        \<ge> 0.7 * real (length (approved_records lbls)))"

section \<open>Concrete inputs\<close>

text \<open>
  Inputs for the evaluations below: the default configuration, a configuration with a
  small size limit, an environment in which nothing fails, the identity as a stand-in
  for the hash function, an empty service, and some uploads.
\<close>

definition default_config :: config where
  "default_config = \<lparr>MAX_FILE_SIZE = 10485760, USE_OCR = True\<rparr>"

definition small_config :: config where
  "small_config = \<lparr>MAX_FILE_SIZE = 4, USE_OCR = True\<rparr>"

definition quiet_env :: "string \<Rightarrow> upload_env" where
  "quiet_env new_id =
     \<lparr>read_raises = False, uuid4 = new_id, ocr = OcrResults [Some [Some (''hello'', 0.9)]],
      write_raises = False, save_raises = False, unlink_raises = False,
      now = ''2025-01-01T00:00:00''\<rparr>"

definition toy_hash :: "string \<Rightarrow> string" where
  "toy_hash bytes = bytes"

definition empty_server :: server where
  "empty_server = \<lparr>labels = [], data_files = Map.empty, images = Map.empty, approved = Map.empty\<rparr>"

definition png_upload :: "string \<Rightarrow> upload" where
  "png_upload bytes =
     \<lparr>filename = Some ''scan.png'', content_type = Some ''image/png'', size_attr = None,
      contents = bytes\<rparr>"

definition gif_typed_upload :: upload where
  "gif_typed_upload =
     \<lparr>filename = Some ''scan.png'', content_type = Some ''image/gif'', size_attr = None,
      contents = ''abc''\<rparr>"

definition empty_txt_upload :: upload where
  "empty_txt_upload =
     \<lparr>filename = Some ''notes.txt'', content_type = Some ''image/png'', size_attr = None,
      contents = []\<rparr>"

text \<open>
  For the review endpoint: an environment in which nothing fails, a pending record,
  and a service with two pending records whose ids differ only by surrounding spaces,
  each with its image in the images directory.
\<close>

definition quiet_approve_env :: approve_env where
  "quiet_approve_env =
     \<lparr>rename_raises = False, update_raises = False, rename_back_raises = False,
      approve_now = ''2025-01-02T00:00:00''\<rparr>"

definition pending_record :: "string \<Rightarrow> string \<Rightarrow> upload_metadata" where
  "pending_record i f =
     \<lparr>id_field = i, file_field = f, orig_name = ''scan.png'', provided_text = [],
      predicted_text = ''hello'', corrected_text = [], status = ''pending'', notes_field = [],
      upload_time = ''2025-01-01T00:00:00'', file_size = 3, file_hash = f,
      approval_time = None, rejection_time = None\<rparr>"

definition review_server :: server where
  "review_server =
     \<lparr>labels = [('' a '', pending_record '' a '' ''f1.png''), (''a'', pending_record ''a'' ''f2.png'')],
      data_files = Map.empty,
      images = [''f1.png'' \<mapsto> ''abc'', ''f2.png'' \<mapsto> ''xyz''],
      approved = Map.empty\<rparr>"

text \<open>For loading: a data directory whose labels file holds an unbalanced brace.\<close>

definition corrupted_dir :: "string \<rightharpoonup> doc" where
  "corrupted_dir = [LABELS_FILE \<mapsto> Malformed ''{'']"

text \<open>
  For the readiness report: \<open>n\<close> approved records whose corrected texts are
  \<^verbatim>\<open>a\<close>, \<^verbatim>\<open>aa\<close>, \<^verbatim>\<open>aaa\<close> and so on.
\<close>

definition approved_record :: "nat \<Rightarrow> upload_metadata" where
  "approved_record i =
     (pending_record (str_nat i) (str_nat i @ ''.png''))
       \<lparr>status := ''approved'', corrected_text := replicate (Suc i) CHR ''a''\<rparr>"

definition approved_labels :: "nat \<Rightarrow> labels" where
  "approved_labels n = map (\<lambda>i. (str_nat i, approved_record i)) [0..<n]"

definition duplicate_labels :: labels where
  "duplicate_labels =
     [(''0'', approved_record 0), (''1'', (approved_record 1)\<lparr>corrected_text := '' A ''\<rparr>)]"

text \<open>
  For the preparation of training data: three records, of which the first is approved
  with its image in the approved directory, the second is pending, and the third is
  approved without an image; every copy succeeds and both lists can be written.
\<close>

definition training_labels :: labels where
  "training_labels =
     [(''r1'', (pending_record ''r1'' ''r1.png'')
                 \<lparr>status := ''approved'', corrected_text := ''  Hello   world ''\<rparr>),
      (''r2'', pending_record ''r2'' ''r2.png''),
      (''r3'', (pending_record ''r3'' ''r3.png'')\<lparr>status := ''approved''\<rparr>)]"

definition training_env :: prep_env where
  "training_env =
     \<lparr>labels_loaded = Some training_labels,
      approved_dir = [''r1.png'' \<mapsto> ''abc''],
      copy_result = (\<lambda>entry_id. Copied),
      train_write_raises = False, val_write_raises = False\<rparr>"

text \<open>
  For deduplication: the service after the upload \<^verbatim>\<open>scan.png\<close> with the bytes
  \<^verbatim>\<open>abc\<close> has been stored under the id \<^verbatim>\<open>u1\<close>.
\<close>

definition one_upload_server :: server where
  "one_upload_server =
     \<lparr>labels = [(''u1'', create_metadata (quiet_env ''u1'') (png_upload ''abc'') None ''u1.png''
                          ''abc'' (Some ''hello''))],
      data_files = [LABELS_FILE \<mapsto> Json
                 [(''u1'', create_metadata (quiet_env ''u1'') (png_upload ''abc'') None ''u1.png''
                          ''abc'' (Some ''hello''))]],
      images = [''u1.png'' \<mapsto> ''abc''],
      approved = Map.empty\<rparr>"

section \<open>The OCR confidence threshold\<close>

lemma collect_lines_filter:
  "collect_lines acc (map Some ls) = acc @ map fst (filter (\<lambda>(t, c). c > 0.5) ls)"
  by (induction ls arbitrary: acc) (auto split: prod.splits)

lemma run_ocr_page:
  "USE_OCR cfg \<Longrightarrow> run_ocr cfg (OcrResults (Some page # pages))
     = (if collect_lines [] page = [] then None else Some (join '' '' (collect_lines [] page)))"
  by (cases page) (simp_all add: run_ocr_def Let_def)

lemma or_empty_join:
  "or_empty (if xs = [] then None else Some (join sep xs)) = join sep xs"
  by (simp add: or_empty_def)

lemma none_iff_no_line:
  "((if map fst sel = [] then None else Some y) = None) = (sel = [])"
  by simp

text \<open>
  Claim C7, as the code has it. With OCR enabled, for every sequence of (text,
  confidence) lines of the first page, the predicted text is the texts of the lines
  whose confidence is strictly above 0.5, joined by single spaces in the order given;
  \<^verbatim>\<open>run_ocr\<close> returns \<^verbatim>\<open>None\<close> exactly when no line is above 0.5, and the stored
  text is then empty. A line at exactly 0.5 is left out.
\<close>

theorem run_ocr_threshold:
  assumes "USE_OCR cfg"
  shows "or_empty (run_ocr cfg (OcrResults (Some (map Some lines) # pages)))
           = join '' '' (map fst (filter (\<lambda>(text, confidence). confidence > 0.5) lines))
         \<and> (run_ocr cfg (OcrResults (Some (map Some lines) # pages)) = None
              \<longleftrightarrow> filter (\<lambda>(text, confidence). confidence > 0.5) lines = [])"
proof -
  have c: "collect_lines [] (map Some lines)
             = map fst (filter (\<lambda>(text, confidence). confidence > 0.5) lines)"
    using collect_lines_filter[of "[]" lines] by simp
  show ?thesis
    unfolding run_ocr_page[OF assms] c or_empty_join none_iff_no_line by (rule conjI; rule refl)
qed

theorem run_ocr_threshold_witness:
  "USE_OCR \<lparr>MAX_FILE_SIZE = 10485760, USE_OCR = True\<rparr>
   \<and> or_empty (run_ocr \<lparr>MAX_FILE_SIZE = 10485760, USE_OCR = True\<rparr>
         (OcrResults [Some (map Some [(''low'', 0.2), (''high'', 0.9), (''edge'', 0.5), (''more'', 0.75)])]))
       = ''high more''"
  using run_ocr_threshold[of "\<lparr>MAX_FILE_SIZE = 10485760, USE_OCR = True\<rparr>"
        "[(''low'', 0.2), (''high'', 0.9), (''edge'', 0.5), (''more'', 0.75)]" "[]"]
  by simp

text \<open>
  The claim as worded keeps a line whose confidence is 0.5; the code drops it.
\<close>

theorem run_ocr_threshold_counterexample:
  "or_empty (run_ocr \<lparr>MAX_FILE_SIZE = 10485760, USE_OCR = True\<rparr>
       (OcrResults [Some [Some (''hello'', 0.5)]]))
     \<noteq> predicted_text_spec [(''hello'', 0.5)]"
  by (simp add: run_ocr_def or_empty_def predicted_text_spec_def)

section \<open>Validation of an upload\<close>

lemma validate_file_ok_iff:
  "validate_file cfg f = Inr () \<longleftrightarrow>
     (\<exists>name. filename f = Some name \<and> name \<noteq> [] \<and> lower (suffix name) \<in> set ALLOWED_EXTENSIONS
        \<and> (\<forall>n. size_attr f = Some n \<longrightarrow> n \<le> MAX_FILE_SIZE cfg))"
  by (auto simp: validate_file_def split: option.splits)

lemma upload_file_rejected:
  "validate_file cfg f = Inl e \<Longrightarrow> upload_file H cfg env f provided s = (Inl e, s)"
  by (simp add: upload_file_def)

lemma validate_file_contents:
  "validate_file cfg (f\<lparr>contents := c\<rparr>) = validate_file cfg f"
  by (simp add: validate_file_def split: option.splits)

lemmas eval_text =
  suffix_def path_name_def lower_def lower_char_def upper_letters_def lower_letters_def
  ALLOWED_EXTENSIONS_def strip_def isspace_def startswith_def mime_to_ext_def

lemma ext_scan_png: "lower (suffix ''scan.png'') = ''.png''"
  by (simp add: eval_text)

lemma ext_notes_txt: "lower (suffix ''notes.txt'') = ''.txt''"
  by (simp add: eval_text)

lemma png_allowed: "''.png'' \<in> set ALLOWED_EXTENSIONS"
  by (simp add: ALLOWED_EXTENSIONS_def)

lemma txt_not_allowed: "''.txt'' \<notin> set ALLOWED_EXTENSIONS"
  by (simp add: ALLOWED_EXTENSIONS_def)

lemmas eval_ext = ext_scan_png ext_notes_txt png_allowed txt_not_allowed

lemmas eval_examples =
  default_config_def small_config_def quiet_env_def toy_hash_def empty_server_def
  png_upload_def gif_typed_upload_def empty_txt_upload_def

text \<open>
  Claim C5, as the code has it. \<^verbatim>\<open>validate_file\<close> runs before the content is read,
  so the rejections come in this order: a missing or empty file name; an extension of
  the client's file name (lowercased) outside the allow-list; a declared size above
  the maximum; a failed read; empty content; content above the maximum size. Each
  rejection leaves the service unchanged. An upload that is both empty and has a
  disallowed extension is rejected for its file type.
\<close>

theorem upload_validation_order:
  "(filename f = None \<or> filename f = Some [] \<longrightarrow>
      upload_file H cfg env f provided s = (Inl (HTTPException 400 ''No filename provided''), s))
   \<and> (\<forall>name. filename f = Some name \<and> name \<noteq> [] \<and> lower (suffix name) \<notin> set ALLOWED_EXTENSIONS \<longrightarrow>
      upload_file H cfg env f provided s = (Inl (HTTPException 400 ''Invalid file type''), s))
   \<and> (\<forall>name n. filename f = Some name \<and> name \<noteq> [] \<and> lower (suffix name) \<in> set ALLOWED_EXTENSIONS
        \<and> size_attr f = Some n \<and> n > MAX_FILE_SIZE cfg \<longrightarrow>
      upload_file H cfg env f provided s = (Inl (HTTPException 413 ''File too large''), s))
   \<and> (validate_file cfg f = Inr () \<and> read_raises env \<longrightarrow>
      upload_file H cfg env f provided s = (Inl (HTTPException 400 ''Failed to read file''), s))
   \<and> (validate_file cfg f = Inr () \<and> \<not> read_raises env \<and> contents f = [] \<longrightarrow>
      upload_file H cfg env f provided s = (Inl (HTTPException 400 ''Empty file''), s))
   \<and> (validate_file cfg f = Inr () \<and> \<not> read_raises env \<and> contents f \<noteq> []
        \<and> length (contents f) > MAX_FILE_SIZE cfg \<longrightarrow>
      upload_file H cfg env f provided s = (Inl (HTTPException 413 ''File too large''), s))"
proof -
  have 1: "filename f = None \<or> filename f = Some [] \<Longrightarrow>
      upload_file H cfg env f provided s = (Inl (HTTPException 400 ''No filename provided''), s)"
    by (rule upload_file_rejected) (auto simp: validate_file_def)
  have 2: "\<And>name. filename f = Some name \<and> name \<noteq> [] \<and> lower (suffix name) \<notin> set ALLOWED_EXTENSIONS \<Longrightarrow>
      upload_file H cfg env f provided s = (Inl (HTTPException 400 ''Invalid file type''), s)"
    by (rule upload_file_rejected) (auto simp: validate_file_def)
  have 3: "\<And>name n. filename f = Some name \<and> name \<noteq> [] \<and> lower (suffix name) \<in> set ALLOWED_EXTENSIONS
        \<and> size_attr f = Some n \<and> n > MAX_FILE_SIZE cfg \<Longrightarrow>
      upload_file H cfg env f provided s = (Inl (HTTPException 413 ''File too large''), s)"
    by (rule upload_file_rejected) (auto simp: validate_file_def)
  have 4: "validate_file cfg f = Inr () \<Longrightarrow> read_raises env \<Longrightarrow>
      upload_file H cfg env f provided s = (Inl (HTTPException 400 ''Failed to read file''), s)"
    by (simp add: upload_file_def)
  have 5: "validate_file cfg f = Inr () \<Longrightarrow> \<not> read_raises env \<Longrightarrow> contents f = [] \<Longrightarrow>
      upload_file H cfg env f provided s = (Inl (HTTPException 400 ''Empty file''), s)"
    by (simp add: upload_file_def)
  have 6: "validate_file cfg f = Inr () \<Longrightarrow> \<not> read_raises env \<Longrightarrow> contents f \<noteq> [] \<Longrightarrow>
      length (contents f) > MAX_FILE_SIZE cfg \<Longrightarrow>
      upload_file H cfg env f provided s = (Inl (HTTPException 413 ''File too large''), s)"
    by (simp add: upload_file_def)
  from 1 2 3 4 5 6 show ?thesis by blast
qed

text \<open>
  One upload for each rejection of the order: without a file name; empty with a
  \<^verbatim>\<open>.txt\<close> name; with a declared size above the limit; unreadable; empty; and
  longer than the limit once read.
\<close>

theorem upload_validation_order_witness:
  "upload_file toy_hash small_config (quiet_env ''u1'') (png_upload ''abc''\<lparr>filename := None\<rparr>) None empty_server
     = (Inl (HTTPException 400 ''No filename provided''), empty_server)
   \<and> upload_file toy_hash small_config (quiet_env ''u1'') empty_txt_upload None empty_server
     = (Inl (HTTPException 400 ''Invalid file type''), empty_server)
   \<and> upload_file toy_hash small_config (quiet_env ''u1'') (png_upload ''abc''\<lparr>size_attr := Some 5\<rparr>) None empty_server
     = (Inl (HTTPException 413 ''File too large''), empty_server)
   \<and> upload_file toy_hash small_config (quiet_env ''u1''\<lparr>read_raises := True\<rparr>) (png_upload ''abc'') None empty_server
     = (Inl (HTTPException 400 ''Failed to read file''), empty_server)
   \<and> upload_file toy_hash small_config (quiet_env ''u1'') (png_upload []) None empty_server
     = (Inl (HTTPException 400 ''Empty file''), empty_server)
   \<and> upload_file toy_hash small_config (quiet_env ''u1'') (png_upload ''abcde'') None empty_server
     = (Inl (HTTPException 413 ''File too large''), empty_server)"
  using upload_validation_order[where f="png_upload ''abc''\<lparr>filename := None\<rparr>" and H=toy_hash and cfg=small_config
          and env="quiet_env ''u1''" and provided=None and s=empty_server]
        upload_validation_order[where f="empty_txt_upload" and H=toy_hash and cfg=small_config
          and env="quiet_env ''u1''" and provided=None and s=empty_server]
        upload_validation_order[where f="png_upload ''abc''\<lparr>size_attr := Some 5\<rparr>" and H=toy_hash and cfg=small_config
          and env="quiet_env ''u1''" and provided=None and s=empty_server]
        upload_validation_order[where f="png_upload ''abc''" and H=toy_hash and cfg=small_config
          and env="quiet_env ''u1''\<lparr>read_raises := True\<rparr>" and provided=None and s=empty_server]
        upload_validation_order[where f="png_upload []" and H=toy_hash and cfg=small_config
          and env="quiet_env ''u1''" and provided=None and s=empty_server]
        upload_validation_order[where f="png_upload ''abcde''" and H=toy_hash and cfg=small_config
          and env="quiet_env ''u1''" and provided=None and s=empty_server]
  by (simp add: eval_examples eval_ext validate_file_def)

text \<open>
  The order of the claim puts the empty-content rejection first; for an empty upload
  named \<^verbatim>\<open>notes.txt\<close> the code reports the file type.
\<close>

theorem upload_validation_order_counterexample:
  "contents empty_txt_upload = []
   \<and> validation_order_spec default_config empty_txt_upload = Some (HTTPException 400 ''Empty file'')
   \<and> fst (upload_file toy_hash default_config (quiet_env ''u1'') empty_txt_upload None empty_server)
       = Inl (HTTPException 400 ''Invalid file type'')"
  by (simp add: eval_examples eval_ext validation_order_spec_def upload_file_def validate_file_def)

text \<open>
  Claim C9. An upload without a file name, with an empty file name, or with a file name
  whose lowercased extension is outside the allow-list is rejected with status 400,
  the service unchanged; the answer is the same whatever the content, the outcome of
  the read, the hash function and the other inputs are, and whatever the content type
  says. So every successful upload has a file name with an allowed extension.
\<close>

theorem filename_precondition:
  "((filename f = None \<or> filename f = Some []
      \<or> (\<exists>name. filename f = Some name \<and> lower (suffix name) \<notin> set ALLOWED_EXTENSIONS)) \<longrightarrow>
        (\<exists>d. upload_file H cfg env f provided s = (Inl (HTTPException 400 d), s))
        \<and> upload_file H' cfg env' (f\<lparr>contents := c\<rparr>) provided' s = upload_file H cfg env f provided s)
   \<and> (upload_file H cfg env f provided s = (Inr r, s') \<longrightarrow>
        (\<exists>name. filename f = Some name \<and> name \<noteq> [] \<and> lower (suffix name) \<in> set ALLOWED_EXTENSIONS))"
proof (intro conjI impI)
  assume a: "filename f = None \<or> filename f = Some []
      \<or> (\<exists>name. filename f = Some name \<and> lower (suffix name) \<notin> set ALLOWED_EXTENSIONS)"
  then have "\<exists>d. validate_file cfg f = Inl (HTTPException 400 d)"
    by (auto simp: validate_file_def)
  then obtain d where v: "validate_file cfg f = Inl (HTTPException 400 d)" ..
  then have v': "validate_file cfg (f\<lparr>contents := c\<rparr>) = Inl (HTTPException 400 d)"
    by (simp add: validate_file_contents)
  from v show "\<exists>d. upload_file H cfg env f provided s = (Inl (HTTPException 400 d), s)"
    by (auto simp: upload_file_rejected)
  from v v' show "upload_file H' cfg env' (f\<lparr>contents := c\<rparr>) provided' s = upload_file H cfg env f provided s"
    by (simp add: upload_file_rejected)
next
  assume a: "upload_file H cfg env f provided s = (Inr r, s')"
  have "validate_file cfg f = Inr ()"
  proof (cases "validate_file cfg f")
    case (Inl e) with a show ?thesis by (simp add: upload_file_rejected)
  next
    case (Inr u) then show ?thesis by simp
  qed
  then show "\<exists>name. filename f = Some name \<and> name \<noteq> [] \<and> lower (suffix name) \<in> set ALLOWED_EXTENSIONS"
    by (auto simp: validate_file_ok_iff)
qed

text \<open>
  A \<^verbatim>\<open>.txt\<close> name with the content type \<^verbatim>\<open>image/png\<close> is rejected, with content
  or without; and the accepted upload \<^verbatim>\<open>scan.png\<close> has an allowed extension.
\<close>

theorem filename_precondition_witness:
  "(\<exists>name. filename empty_txt_upload = Some name \<and> lower (suffix name) \<notin> set ALLOWED_EXTENSIONS)
   \<and> content_type empty_txt_upload = Some ''image/png''
   \<and> (\<exists>d. upload_file toy_hash default_config (quiet_env ''u1'') empty_txt_upload None empty_server
              = (Inl (HTTPException 400 d), empty_server))
   \<and> upload_file toy_hash default_config (quiet_env ''u2'') (empty_txt_upload\<lparr>contents := ''abc''\<rparr>) None empty_server
       = upload_file toy_hash default_config (quiet_env ''u1'') empty_txt_upload None empty_server
   \<and> (\<exists>r s'. upload_file toy_hash default_config (quiet_env ''u1'') (png_upload ''abc'') None empty_server = (Inr r, s'))
   \<and> (\<exists>name. filename (png_upload ''abc'') = Some name \<and> name \<noteq> []
         \<and> lower (suffix name) \<in> set ALLOWED_EXTENSIONS)"
proof -
  have h: "\<exists>name. filename empty_txt_upload = Some name \<and> lower (suffix name) \<notin> set ALLOWED_EXTENSIONS"
    by (simp add: eval_examples eval_ext)
  have ok: "\<exists>r s'. upload_file toy_hash default_config (quiet_env ''u1'') (png_upload ''abc'') None empty_server = (Inr r, s')"
    by (simp add: eval_examples eval_ext upload_file_def validate_file_def Let_def add_upload_def
          save_labels_def)
  then obtain r s' where ok': "upload_file toy_hash default_config (quiet_env ''u1'') (png_upload ''abc'') None empty_server = (Inr r, s')"
    by blast
  from filename_precondition[where f=empty_txt_upload and H=toy_hash and cfg=default_config
          and env="quiet_env ''u1''" and provided=None and s=empty_server and H'=toy_hash
          and env'="quiet_env ''u2''" and c="''abc''" and provided'=None] h
  have a: "(\<exists>d. upload_file toy_hash default_config (quiet_env ''u1'') empty_txt_upload None empty_server
              = (Inl (HTTPException 400 d), empty_server))
     \<and> upload_file toy_hash default_config (quiet_env ''u2'') (empty_txt_upload\<lparr>contents := ''abc''\<rparr>) None empty_server
       = upload_file toy_hash default_config (quiet_env ''u1'') empty_txt_upload None empty_server"
    by blast
  from filename_precondition[where f="png_upload ''abc''" and H=toy_hash and cfg=default_config
          and env="quiet_env ''u1''" and provided=None and s=empty_server and r=r and s'=s'] ok'
  have b: "\<exists>name. filename (png_upload ''abc'') = Some name \<and> name \<noteq> []
         \<and> lower (suffix name) \<in> set ALLOWED_EXTENSIONS"
    by blast
  have c: "content_type empty_txt_upload = Some ''image/png''"
    by (simp add: eval_examples)
  from h a b c ok show ?thesis by blast
qed

section \<open>The stored file name\<close>

lemma resolve_ext_allowed: "resolve_ext f \<in> set ALLOWED_EXTENSIONS"
  by (auto simp: resolve_ext_def Let_def ALLOWED_EXTENSIONS_def mime_to_ext_def
      split: option.splits if_splits)

lemma upload_file_new:
  assumes "passes_validation cfg env f"
    and "find_duplicate (H (contents f)) (labels s) = None"
    and "\<not> write_raises env" and "\<not> save_raises env"
  shows "upload_file H cfg env f provided s =
           (Inr \<lparr>success = True, upload_id = uuid4 env,
                 predicted = (if USE_OCR cfg then run_ocr cfg (ocr env) else None),
                 message = ''Upload successful''\<rparr>,
            s\<lparr>images := (images s)(uuid4 env @ resolve_ext f \<mapsto> contents f),
              labels := AList.update (uuid4 env)
                 (create_metadata env f provided (uuid4 env @ resolve_ext f) (H (contents f))
                    (if USE_OCR cfg then run_ocr cfg (ocr env) else None))
                 (labels s),
              data_files := (data_files s)(with_suffix LABELS_FILE ''.tmp'' := None,
                 LABELS_FILE \<mapsto> Json (AList.update (uuid4 env)
                   (create_metadata env f provided (uuid4 env @ resolve_ext f) (H (contents f))
                      (if USE_OCR cfg then run_ocr cfg (ocr env) else None))
                   (labels s)))\<rparr>)"
  using assms
  by (simp add: upload_file_def passes_validation_def Let_def add_upload_def save_labels_def)

lemma resolve_ext_cases:
  assumes "filename f = Some name" and "name \<noteq> []"
    and "lower (suffix name) \<in> set ALLOWED_EXTENSIONS"
  shows "resolve_ext f =
           (case content_type f of
              None \<Rightarrow> lower (suffix name)
            | Some c \<Rightarrow>
                if startswith c ''image/''
                then (case map_of mime_to_ext c of None \<Rightarrow> ''.jpg'' | Some e \<Rightarrow> e)
                else lower (suffix name))"
  using assms
  by (simp add: resolve_ext_def Let_def startswith_def split: option.splits)

text \<open>
  Claim C4, as the code has it. For every accepted upload of new content that is
  written and recorded, the stored file name is the fresh id followed by an allowed
  extension, and never the client's file name. The extension is: for a content type
  that starts with \<^verbatim>\<open>image/\<close>, its entry in the MIME table, or \<^verbatim>\<open>.jpg\<close> when the
  table has none; for an absent content type or one that does not start with
  \<^verbatim>\<open>image/\<close>, the lowercased extension of the client's file name (which validation
  has found in the allow-list).
\<close>

theorem stored_name_extension:
  assumes "passes_validation cfg env f"
    and "find_duplicate (H (contents f)) (labels s) = None"
    and "\<not> write_raises env" and "\<not> save_raises env"
  shows "\<exists>r s' e name.
           upload_file H cfg env f provided s = (Inr r, s')
           \<and> upload_id r = uuid4 env
           \<and> map_of (labels s') (uuid4 env) = Some e
           \<and> filename f = Some name \<and> orig_name e = name
           \<and> file_field e = uuid4 env @ resolve_ext f
           \<and> images s' (file_field e) = Some (contents f)
           \<and> resolve_ext f \<in> set ALLOWED_EXTENSIONS
           \<and> resolve_ext f =
                (case content_type f of
                   None \<Rightarrow> lower (suffix name)
                 | Some c \<Rightarrow>
                     if startswith c ''image/''
                     then (case map_of mime_to_ext c of None \<Rightarrow> ''.jpg'' | Some e \<Rightarrow> e)
                     else lower (suffix name))"
proof -
  from assms(1) have "validate_file cfg f = Inr ()"
    by (simp add: passes_validation_def)
  then obtain name where n: "filename f = Some name" "name \<noteq> []"
      "lower (suffix name) \<in> set ALLOWED_EXTENSIONS"
    by (auto simp: validate_file_ok_iff)
  note up = upload_file_new[where H=H and provided=provided, OF assms]
  show ?thesis
    apply (rule exI)+
    apply (intro conjI)
            apply (rule up)
           apply simp
          apply (simp add: update_conv')
         apply (rule n(1))
        apply (simp add: create_metadata_def n(1))
       apply (simp add: create_metadata_def)
      apply (simp add: create_metadata_def)
     apply (rule resolve_ext_allowed)
    apply (rule resolve_ext_cases[OF n])
    done
qed

text \<open>
  The upload \<^verbatim>\<open>scan.png\<close> declared as \<^verbatim>\<open>image/gif\<close>, a type outside the table,
  is accepted and stored as \<^verbatim>\<open>u1.jpg\<close>.
\<close>

theorem stored_name_extension_witness:
  "passes_validation default_config (quiet_env ''u1'') gif_typed_upload
   \<and> find_duplicate (toy_hash (contents gif_typed_upload)) (labels empty_server) = None
   \<and> \<not> write_raises (quiet_env ''u1'') \<and> \<not> save_raises (quiet_env ''u1'')
   \<and> (\<exists>r s' e. upload_file toy_hash default_config (quiet_env ''u1'') gif_typed_upload None empty_server
                   = (Inr r, s')
         \<and> map_of (labels s') ''u1'' = Some e \<and> file_field e = ''u1.jpg''
         \<and> images s' ''u1.jpg'' = Some ''abc'')"
proof -
  have h1: "passes_validation default_config (quiet_env ''u1'') gif_typed_upload"
    by (simp add: passes_validation_def validate_file_def eval_examples eval_ext)
  have h2: "find_duplicate (toy_hash (contents gif_typed_upload)) (labels empty_server) = None"
    by (simp add: eval_examples)
  have h3: "\<not> write_raises (quiet_env ''u1'')" and h4: "\<not> save_raises (quiet_env ''u1'')"
    by (simp_all add: eval_examples)
  have r: "resolve_ext gif_typed_upload = ''.jpg''"
    by (simp add: resolve_ext_def eval_examples startswith_def mime_to_ext_def)
  have u: "uuid4 (quiet_env ''u1'') = ''u1''" and c: "contents gif_typed_upload = ''abc''"
    by (simp_all add: eval_examples)
  from stored_name_extension[where H=toy_hash and provided=None, OF h1 h2 h3 h4]
  have "\<exists>r s' e. upload_file toy_hash default_config (quiet_env ''u1'') gif_typed_upload None empty_server
                   = (Inr r, s')
         \<and> map_of (labels s') ''u1'' = Some e \<and> file_field e = ''u1.jpg''
         \<and> images s' ''u1.jpg'' = Some ''abc''"
    unfolding r u c by auto
  with h1 h2 h3 h4 show ?thesis by blast
qed

text \<open>
  The claim takes the extension of the file name when the content type is not in the
  table: \<^verbatim>\<open>.png\<close> for this upload. The code stores it as \<^verbatim>\<open>u1.jpg\<close>.
\<close>

theorem stored_name_extension_counterexample:
  "content_type gif_typed_upload = Some ''image/gif''
   \<and> map_of mime_to_ext ''image/gif'' = None
   \<and> filename gif_typed_upload = Some ''scan.png''
   \<and> resolve_ext_spec gif_typed_upload = ''.png''
   \<and> map (\<lambda>(k, e). file_field e)
         (labels (snd (upload_file toy_hash default_config (quiet_env ''u1'') gif_typed_upload None
                          empty_server)))
       = [''u1.jpg'']"
  by (simp add: eval_examples eval_ext resolve_ext_spec_def resolve_ext_def mime_to_ext_def
        startswith_def upload_file_def validate_file_def Let_def add_upload_def save_labels_def
        create_metadata_def)

section \<open>Approving an upload\<close>

lemma strip_Nil: "strip [] = []"
  by (simp add: strip_def)

lemma update_upload_present:
  assumes "map_of (labels s) k = Some e"
  shows "update_upload raises k upd s =
           (if raises
            then (Inl OSError,
                  s\<lparr>labels := AList.map_entry k upd (labels s),
                    data_files := (data_files s)(with_suffix LABELS_FILE ''.tmp'' := None)\<rparr>)
            else (Inr True,
                  s\<lparr>labels := AList.map_entry k upd (labels s),
                    data_files := (data_files s)(with_suffix LABELS_FILE ''.tmp'' := None,
                       LABELS_FILE \<mapsto> Json (AList.map_entry k upd (labels s)))\<rparr>))"
proof -
  from assms have "k \<in> set (map fst (labels s))"
    by (metis map_of_eq_None_iff option.distinct(1) set_map)
  then show ?thesis
    by (simp add: update_upload_def save_labels_def Let_def)
qed

lemma approve_reaches_update:
  assumes "strip upload_id0 \<noteq> []" and "strip text0 \<noteq> []"
    and "get_upload (strip upload_id0) s = Some entry"
    and "images s (file_field entry) = Some bytes"
    and "\<not> rename_raises env"
  shows "admin_approve_upload env upload_id0 text0 s =
           (case update_upload (update_raises env) (strip upload_id0)
                   (\<lambda>e. e\<lparr>status := ''approved'', corrected_text := strip text0,
                           notes_field := ''approved by admin'',
                           approval_time := Some (approve_now env)\<rparr>)
                   (s\<lparr>images := (images s)(file_field entry := None),
                      approved := (approved s)(file_field entry \<mapsto> bytes)\<rparr>) of
              (Inl e, s2) \<Rightarrow>
                (Inl (HTTPException 500 ''Failed to update upload''),
                 if rename_back_raises env then s2
                 else s2\<lparr>approved := (approved s2)(file_field entry := None),
                         images := (images s2)(file_field entry \<mapsto> bytes)\<rparr>)
            | (Inr _, s2) \<Rightarrow> (Inr \<lparr>admin_success = True, admin_message = ''Upload approved successfully''\<rparr>, s2))"
proof -
  from assms(1,2) have "upload_id0 \<noteq> []" "text0 \<noteq> []"
    using strip_Nil by auto
  with assms show ?thesis
    by (simp add: admin_approve_upload_def Let_def)
qed

lemma approve_success_cases:
  assumes "admin_approve_upload env upload_id0 text0 s = (Inr r, s')"
  shows "strip upload_id0 \<noteq> [] \<and> strip text0 \<noteq> []
         \<and> (\<exists>entry bytes. get_upload (strip upload_id0) s = Some entry
               \<and> images s (file_field entry) = Some bytes)
         \<and> \<not> rename_raises env \<and> \<not> update_raises env"
  using assms
  by (auto simp: admin_approve_upload_def Let_def get_upload_def update_upload_present
      split: if_splits option.splits)

text \<open>
  What a successful call has done: the record under the trimmed id existed with its
  file in the images directory, and the call moved the file and updated the record.
\<close>

lemma approve_success_effect:
  assumes "admin_approve_upload env upload_id0 text0 s = (Inr r, s')"
  shows "\<exists>entry bytes entry'.
           get_upload (strip upload_id0) s = Some entry
           \<and> strip text0 \<noteq> []
           \<and> images s (file_field entry) = Some bytes
           \<and> approved s' (file_field entry) = Some bytes
           \<and> images s' (file_field entry) = None
           \<and> get_upload (strip upload_id0) s' = Some entry'
           \<and> file_field entry' = file_field entry
           \<and> status entry' = ''approved''
           \<and> corrected_text entry' = strip text0
           \<and> approval_time entry' = Some (approve_now env)
           \<and> data_files s' LABELS_FILE = Some (Json (labels s'))"
proof -
  from approve_success_cases[OF assms] obtain entry bytes where
    h: "strip upload_id0 \<noteq> []" "strip text0 \<noteq> []"
       "get_upload (strip upload_id0) s = Some entry"
       "images s (file_field entry) = Some bytes"
       "\<not> rename_raises env" "\<not> update_raises env"
    by blast
  let ?upd = "\<lambda>e. e\<lparr>status := ''approved'', corrected_text := strip text0,
                       notes_field := ''approved by admin'',
                       approval_time := Some (approve_now env)\<rparr>"
  let ?s1 = "s\<lparr>images := (images s)(file_field entry := None),
               approved := (approved s)(file_field entry \<mapsto> bytes)\<rparr>"
  have m: "map_of (labels ?s1) (strip upload_id0) = Some entry"
    using h(3) by (simp add: get_upload_def)
  have s': "s' = ?s1\<lparr>labels := AList.map_entry (strip upload_id0) ?upd (labels ?s1),
                 data_files := (data_files ?s1)(with_suffix LABELS_FILE ''.tmp'' := None,
                    LABELS_FILE \<mapsto> Json (AList.map_entry (strip upload_id0) ?upd (labels ?s1)))\<rparr>"
    using assms h(6)
    unfolding approve_reaches_update[OF h(1-5)] update_upload_present[OF m]
    by simp
  have g: "get_upload (strip upload_id0) s' = Some (?upd entry)"
    using h(3) by (simp add: s' get_upload_def map_of_map_entry)
  show ?thesis
    apply (rule exI[of _ entry], rule exI[of _ bytes], rule exI[of _ "?upd entry"])
    apply (intro conjI)
              apply (rule h(3))
             apply (rule h(2))
            apply (rule h(4))
           apply (simp add: s')
          apply (simp add: s')
         apply (rule g)
        apply simp
       apply simp
      apply simp
     apply simp
    apply (simp add: s')
    done
qed

text \<open>
  Without a failing file operation the call succeeds for every record of the store
  whose file is pending.
\<close>

lemma approve_succeeds:
  assumes "strip upload_id0 \<noteq> []" and "strip text0 \<noteq> []"
    and "get_upload (strip upload_id0) s = Some entry"
    and "images s (file_field entry) = Some bytes"
    and "\<not> rename_raises env" and "\<not> update_raises env"
  shows "\<exists>s'. admin_approve_upload env upload_id0 text0 s
                 = (Inr \<lparr>admin_success = True, admin_message = ''Upload approved successfully''\<rparr>, s')"
proof -
  let ?s1 = "s\<lparr>images := (images s)(file_field entry := None),
               approved := (approved s)(file_field entry \<mapsto> bytes)\<rparr>"
  have m: "map_of (labels ?s1) (strip upload_id0) = Some entry"
    using assms(3) by (simp add: get_upload_def)
  show ?thesis
    unfolding approve_reaches_update[OF assms(1-5)] update_upload_present[OF m]
    using assms(6) by simp
qed

text \<open>
  The ids stay trimmed: an upload adds at most the id that \<^verbatim>\<open>uuid4\<close> gave, and an
  approval adds none.
\<close>

lemma ids_trimmed_update:
  "ids_trimmed ls \<Longrightarrow> strip k = k \<Longrightarrow> ids_trimmed (AList.update k v ls)"
  by (induction ls) (auto simp: ids_trimmed_def)

lemma map_fst_map_entry: "map fst (AList.map_entry k f ls) = map fst ls"
  by (induction ls) auto

lemma ids_trimmed_upload:
  assumes "ids_trimmed (labels s)" and "strip (uuid4 env) = uuid4 env"
  shows "ids_trimmed (labels (snd (upload_file H cfg env f provided s)))"
  using assms
  by (auto simp: upload_file_def Let_def add_upload_def save_labels_def ids_trimmed_update
      split: sum.splits option.splits if_splits)

lemma ids_trimmed_approve:
  assumes "ids_trimmed (labels s)"
  shows "ids_trimmed (labels (snd (admin_approve_upload env upload_id0 text0 s)))"
proof -
  have k: "\<And>k f. ids_trimmed (AList.map_entry k f (labels s))"
    using assms by (simp add: ids_trimmed_def map_fst_map_entry)
  show ?thesis
    using assms k
    by (auto simp: admin_approve_upload_def Let_def update_upload_def save_labels_def
        split: option.splits if_splits)
qed

lemma trimmed_id_in_store:
  assumes "ids_trimmed (labels s)" and "get_upload upload_id0 s = Some entry"
  shows "strip upload_id0 = upload_id0"
proof -
  from assms(2) have "upload_id0 \<in> set (map fst (labels s))"
    unfolding get_upload_def by (metis map_of_eq_None_iff option.distinct(1) set_map)
  with assms(1) show ?thesis
    by (auto simp: ids_trimmed_def list_all_iff)
qed

text \<open>
  Claim C2. In a store whose ids are trimmed, for every record id present in the
  store: if \<^verbatim>\<open>approve(id, corrected_text)\<close> is called with a corrected text that is
  not empty after trimming and the record's file in the images directory, and the
  call returns successfully, then afterwards the record's file, with the same bytes,
  is in the approved directory and not in the images directory, and the record has
  status approved, the trimmed text as corrected text and its approval time set, in
  memory and in the saved labels file.
\<close>

theorem approve_moves_file:
  assumes "ids_trimmed (labels s)"
    and "get_upload upload_id0 s = Some entry"
    and "strip text0 \<noteq> []"
    and "images s (file_field entry) = Some bytes"
    and "admin_approve_upload env upload_id0 text0 s = (Inr r, s')"
  shows "approved s' (file_field entry) = Some bytes
         \<and> images s' (file_field entry) = None
         \<and> (\<exists>entry'. get_upload upload_id0 s' = Some entry'
               \<and> file_field entry' = file_field entry
               \<and> status entry' = ''approved''
               \<and> corrected_text entry' = strip text0
               \<and> approval_time entry' = Some (approve_now env))
         \<and> data_files s' LABELS_FILE = Some (Json (labels s'))"
proof -
  have t: "strip upload_id0 = upload_id0"
    by (rule trimmed_id_in_store[OF assms(1,2)])
  from approve_success_effect[OF assms(5)] assms(2,4)
  show ?thesis
    unfolding t by auto
qed

lemma eval_strip_a: "strip ''a'' = ''a''" and eval_strip_u1: "strip ''u1'' = ''u1''"
  and eval_strip_hi: "strip '' hello world '' = ''hello world''"
  by (simp_all add: strip_def isspace_def)

text \<open>
  In the service that holds the upload \<^verbatim>\<open>u1\<close>, approving \<^verbatim>\<open>u1\<close> succeeds and
  moves \<^verbatim>\<open>u1.png\<close> to the approved directory.
\<close>

theorem approve_moves_file_witness:
  "ids_trimmed (labels one_upload_server)
   \<and> map_option file_field (get_upload ''u1'' one_upload_server) = Some ''u1.png''
   \<and> strip '' hello world '' \<noteq> []
   \<and> images one_upload_server ''u1.png'' = Some ''abc''
   \<and> (\<exists>r s'. admin_approve_upload quiet_approve_env ''u1'' '' hello world '' one_upload_server
                  = (Inr r, s')
         \<and> approved s' ''u1.png'' = Some ''abc'' \<and> images s' ''u1.png'' = None
         \<and> map_option status (get_upload ''u1'' s') = Some ''approved''
         \<and> map_option corrected_text (get_upload ''u1'' s') = Some ''hello world'')"
proof -
  let ?m = "create_metadata (quiet_env ''u1'') (png_upload ''abc'') None ''u1.png'' ''abc'' (Some ''hello'')"
  have h1: "ids_trimmed (labels one_upload_server)"
    by (simp add: ids_trimmed_def one_upload_server_def eval_strip_u1)
  have h2: "get_upload ''u1'' one_upload_server = Some ?m"
    by (simp add: get_upload_def one_upload_server_def)
  have f: "file_field ?m = ''u1.png''"
    by (simp add: create_metadata_def)
  have h3: "strip '' hello world '' \<noteq> []"
    by (simp add: eval_strip_hi)
  have h4: "images one_upload_server (file_field ?m) = Some ''abc''"
    by (simp add: f one_upload_server_def)
  have q: "\<not> rename_raises quiet_approve_env" "\<not> update_raises quiet_approve_env"
    by (simp_all add: quiet_approve_env_def)
  have "\<exists>s'. admin_approve_upload quiet_approve_env ''u1'' '' hello world '' one_upload_server
              = (Inr \<lparr>admin_success = True, admin_message = ''Upload approved successfully''\<rparr>, s')"
    using approve_succeeds[of "''u1''" "'' hello world ''" one_upload_server ?m "''abc''" quiet_approve_env]
      h2 h3 h4 q
    by (simp add: eval_strip_u1)
  then obtain r s' where a: "admin_approve_upload quiet_approve_env ''u1'' '' hello world ''
      one_upload_server = (Inr r, s')"
    by blast
  from approve_moves_file[OF h1 h2 h3 h4 a]
  have "approved s' ''u1.png'' = Some ''abc'' \<and> images s' ''u1.png'' = None
         \<and> map_option status (get_upload ''u1'' s') = Some ''approved''
         \<and> map_option corrected_text (get_upload ''u1'' s') = Some ''hello world''"
    unfolding f eval_strip_hi by auto
  with a h1 h2 h3 h4 f show ?thesis by auto
qed

text \<open>
  Claim C6. When the file has been moved to the approved directory and the write of
  the labels then raises, the call ends with the error 500 ``Failed to update upload'',
  never with success, and the labels file on disk is as before; the file is renamed
  back, so unless that second rename raises too it is again in the images directory
  with its bytes and no longer in the approved directory.
\<close>

theorem approve_compensates:
  assumes "strip upload_id0 \<noteq> []" and "strip text0 \<noteq> []"
    and "get_upload (strip upload_id0) s = Some entry"
    and "images s (file_field entry) = Some bytes"
    and "\<not> rename_raises env"
    and "update_raises env"
  shows "\<exists>s'. admin_approve_upload env upload_id0 text0 s
                 = (Inl (HTTPException 500 ''Failed to update upload''), s')
           \<and> data_files s' LABELS_FILE = data_files s LABELS_FILE
           \<and> (\<not> rename_back_raises env \<longrightarrow>
                  images s' (file_field entry) = Some bytes \<and> approved s' (file_field entry) = None)
           \<and> (rename_back_raises env \<longrightarrow>
                  images s' (file_field entry) = None \<and> approved s' (file_field entry) = Some bytes)"
proof -
  let ?s1 = "s\<lparr>images := (images s)(file_field entry := None),
               approved := (approved s)(file_field entry \<mapsto> bytes)\<rparr>"
  have m: "map_of (labels ?s1) (strip upload_id0) = Some entry"
    using assms(3) by (simp add: get_upload_def)
  have t: "with_suffix LABELS_FILE ''.tmp'' \<noteq> LABELS_FILE"
    by (simp add: with_suffix_def LABELS_FILE_def suffix_def path_name_def)
  show ?thesis
    unfolding approve_reaches_update[OF assms(1-5)] update_upload_present[OF m]
    using assms(6) t by simp
qed

text \<open>
  In the service with the two pending records, approving \<^verbatim>\<open>"a"\<close> while the labels
  cannot be written fails and leaves \<^verbatim>\<open>f2.png\<close> in the images directory.
\<close>

theorem approve_compensates_witness:
  "strip ''a'' \<noteq> [] \<and> strip '' hello world '' \<noteq> []
   \<and> get_upload (strip ''a'') review_server = Some (pending_record ''a'' ''f2.png'')
   \<and> images review_server (file_field (pending_record ''a'' ''f2.png'')) = Some ''xyz''
   \<and> \<not> rename_raises (quiet_approve_env\<lparr>update_raises := True\<rparr>)
   \<and> update_raises (quiet_approve_env\<lparr>update_raises := True\<rparr>)
   \<and> \<not> rename_back_raises (quiet_approve_env\<lparr>update_raises := True\<rparr>)
   \<and> (\<exists>s'. admin_approve_upload (quiet_approve_env\<lparr>update_raises := True\<rparr>) ''a'' '' hello world ''
               review_server = (Inl (HTTPException 500 ''Failed to update upload''), s')
          \<and> images s' ''f2.png'' = Some ''xyz'' \<and> approved s' ''f2.png'' = None)"
proof -
  have h1: "strip ''a'' \<noteq> []" and h2: "strip '' hello world '' \<noteq> []"
    by (simp_all add: eval_strip_a eval_strip_hi)
  have h3: "get_upload (strip ''a'') review_server = Some (pending_record ''a'' ''f2.png'')"
    by (simp add: eval_strip_a get_upload_def review_server_def)
  have f: "file_field (pending_record ''a'' ''f2.png'') = ''f2.png''"
    by (simp add: pending_record_def)
  have h4: "images review_server (file_field (pending_record ''a'' ''f2.png'')) = Some ''xyz''"
    by (simp add: f review_server_def)
  have h5: "\<not> rename_raises (quiet_approve_env\<lparr>update_raises := True\<rparr>)"
    and h6: "update_raises (quiet_approve_env\<lparr>update_raises := True\<rparr>)"
    and h7: "\<not> rename_back_raises (quiet_approve_env\<lparr>update_raises := True\<rparr>)"
    by (simp_all add: quiet_approve_env_def)
  from approve_compensates[OF h1 h2 h3 h4 h5 h6] h7
  have "\<exists>s'. admin_approve_upload (quiet_approve_env\<lparr>update_raises := True\<rparr>) ''a'' '' hello world ''
               review_server = (Inl (HTTPException 500 ''Failed to update upload''), s')
          \<and> images s' ''f2.png'' = Some ''xyz'' \<and> approved s' ''f2.png'' = None"
    unfolding f by blast
  with h1 h2 h3 h4 h5 h6 h7 show ?thesis by blast
qed

section \<open>Loading a corrupted labels file\<close>

lemma backup_file_name: "backup_file st = ''labels.backup.'' @ st @ ''.json''"
  by (simp add: backup_file_def with_suffix_def LABELS_FILE_def suffix_def path_name_def)

lemma backup_file_differs: "backup_file st \<noteq> LABELS_FILE"
  by (simp add: backup_file_name LABELS_FILE_def)

text \<open>
  When the rename succeeds, a labels file that does not parse is moved to the backup
  name built from the time, and the load returns the empty dict.
\<close>

lemma load_labels_quarantines:
  assumes "files LABELS_FILE = Some (Malformed t)"
    and "\<not> open_raises env" and "\<not> backup_rename_raises env"
  shows "load_labels env files
           = (Inr [], (files(LABELS_FILE := None))(backup_file (stamp env) \<mapsto> Malformed t))"
  using assms by (simp add: load_labels_def)

text \<open>
  Claim C8 says that the load never raises on a malformed document. The rename of the
  corrupted file is called in the handler of \<^verbatim>\<open>JSONDecodeError\<close>, outside every
  \<^verbatim>\<open>try\<close>; when it raises, as on a data directory that cannot be written,
  \<^verbatim>\<open>_load_labels\<close> raises, nothing is renamed and no store is returned.
\<close>

theorem load_labels_rename_raises:
  "corrupted_dir LABELS_FILE = Some (Malformed ''{'')
   \<and> load_labels \<lparr>open_raises = False, stamp = ''20250101_120000'', backup_rename_raises = True\<rparr>
        corrupted_dir
       = (Inl OSError, corrupted_dir)
   \<and> load_labels \<lparr>open_raises = False, stamp = ''20250101_120000'', backup_rename_raises = False\<rparr>
        corrupted_dir
       = (Inr [], [''labels.backup.20250101_120000.json'' \<mapsto> Malformed ''{''])"
  by (simp add: load_labels_def corrupted_dir_def backup_file_name LABELS_FILE_def)

section \<open>The readiness policy\<close>

declare str_nat.simps [simp del]

lemma unique_texts_card:
  "length (remdups (map (\<lambda>text. strip (lower text))
             (filter (\<lambda>text. strip text \<noteq> []) (map corrected_text xs))))
   = card (set (map (\<lambda>e. strip (lower (corrected_text e)))
             (filter (\<lambda>e. strip (corrected_text e) \<noteq> []) xs)))"
  by (simp add: length_remdups_card_conv filter_map comp_def)

lemma report_nonempty:
  assumes "lbls \<noteq> []"
  shows "generate_training_readiness_report b lbls =
     Report \<lparr>ready = (minimum_count_clause lbls \<and> corrected_text_clause lbls \<and> diversity_clause lbls),
             total_samples = length lbls,
             approved_samples = length (approved_records lbls),
             minimum_required = 100,
             recommendations =
               (if minimum_count_clause lbls then []
                else [''Need at least '' @ str_nat 100 @ '' approved samples. Currently have ''
                        @ str_nat (length (approved_records lbls)) @ ''.'']),
             quality_issues =
               (if corrected_text_clause lbls then []
                else [''Less than 80% of approved samples have corrected text''])
               @ (if diversity_clause lbls then []
                  else [''Low text diversity - many duplicate texts detected'']),
             training_data_exists = b\<rparr>"
proof -
  have u: "length (remdups (map (\<lambda>text. strip (lower text))
             (filter (\<lambda>text. strip text \<noteq> []) (map corrected_text (approved_records lbls)))))
     = card (set (map (\<lambda>e. strip (lower (corrected_text e)))
             (filter (\<lambda>e. strip (corrected_text e) \<noteq> []) (approved_records lbls))))"
    by (rule unique_texts_card)
  show ?thesis
    using assms
    unfolding generate_training_readiness_report_def Let_def
      approved_records_def[symmetric] u
    by (auto simp: minimum_count_clause_def corrected_text_clause_def diversity_clause_def
        not_le not_less)
qed

lemma report_empty:
  "generate_training_readiness_report b [] = NoData False ''No data available''"
  by (simp add: generate_training_readiness_report_def)

text \<open>
  A corrected text counts as non-empty when something is left after trimming. For
  texts that are stored trimmed, as an approval stores them, that is the same as
  being non-empty.
\<close>

lemma corrected_text_clause_trimmed:
  assumes "list_all (\<lambda>e. strip (corrected_text e) = corrected_text e) (approved_records lbls)"
  shows "corrected_text_clause lbls
           = (real (length (filter (\<lambda>e. corrected_text e \<noteq> []) (approved_records lbls)))
                \<ge> 0.8 * real (length (approved_records lbls)))"
proof -
  have "filter (\<lambda>e. strip (corrected_text e) \<noteq> []) (approved_records lbls)
          = filter (\<lambda>e. corrected_text e \<noteq> []) (approved_records lbls)"
    using assms by (intro filter_cong) (auto simp: list_all_iff)
  then show ?thesis
    by (simp add: corrected_text_clause_def)
qed

text \<open>
  Claim C3. For every snapshot of the labels the ready flag is true if and only if
  all three clauses hold: at least 100 approved records; at least 80% of the approved
  records carry non-empty corrected text; and the number of distinct corrected texts,
  lowercased and trimmed, is at least 70% of the approved count. A failing quality
  clause appends its quality issue, and only a failing one does; ready is false
  whenever there is a quality issue, also when the minimum count is reached. In a
  snapshot with at least one record, a minimum count that is not reached appends a
  recommendation.
\<close>

theorem readiness_policy:
  "ready_of (generate_training_readiness_report b lbls)
     = (minimum_count_clause lbls \<and> corrected_text_clause lbls \<and> diversity_clause lbls)
   \<and> (\<not> corrected_text_clause lbls \<longleftrightarrow>
        ''Less than 80% of approved samples have corrected text''
          \<in> set (issues_of (generate_training_readiness_report b lbls)))
   \<and> (\<not> diversity_clause lbls \<longleftrightarrow>
        ''Low text diversity - many duplicate texts detected''
          \<in> set (issues_of (generate_training_readiness_report b lbls)))
   \<and> (issues_of (generate_training_readiness_report b lbls) \<noteq> [] \<longrightarrow>
        \<not> ready_of (generate_training_readiness_report b lbls))
   \<and> (lbls \<noteq> [] \<and> \<not> minimum_count_clause lbls \<longrightarrow>
        recommendations_of (generate_training_readiness_report b lbls) \<noteq> [])"
proof (cases "lbls = []")
  case True
  then show ?thesis
    by (simp add: report_empty minimum_count_clause_def corrected_text_clause_def
        diversity_clause_def approved_records_def)
next
  case False
  show ?thesis
    unfolding report_nonempty[OF False]
    using False by auto
qed

lemma strip_replicate_a:
  "strip (CHR ''a'' # replicate i CHR ''a'') = CHR ''a'' # replicate i CHR ''a''"
proof -
  have "rev (CHR ''a'' # replicate i CHR ''a'') = CHR ''a'' # replicate i CHR ''a''"
    by (simp add: replicate_append_same)
  then show ?thesis
    by (simp add: strip_def isspace_def)
qed

lemma lower_replicate_a:
  "lower (CHR ''a'' # replicate i CHR ''a'') = CHR ''a'' # replicate i CHR ''a''"
  by (simp add: lower_def lower_char_def upper_letters_def lower_letters_def)

lemma approved_records_labels:
  "approved_records (approved_labels n) = map approved_record [0..<n]"
  by (simp add: approved_records_def approved_labels_def comp_def approved_record_def
      filter_map)

lemma clauses_approved_labels:
  "minimum_count_clause (approved_labels n) = (100 \<le> n)"
  "corrected_text_clause (approved_labels n)"
  "diversity_clause (approved_labels n)"
proof -
  have t: "\<And>i. corrected_text (approved_record i) = replicate (Suc i) CHR ''a''"
    by (simp add: approved_record_def)
  have f: "filter (\<lambda>e. strip (corrected_text e) \<noteq> []) (map approved_record [0..<n])
             = map approved_record [0..<n]"
    by (simp add: filter_map comp_def t strip_replicate_a)
  have d: "distinct (map (\<lambda>e. strip (lower (corrected_text e))) (map approved_record [0..<n]))"
    by (simp add: comp_def t lower_replicate_a strip_replicate_a distinct_map inj_on_def)
  show "minimum_count_clause (approved_labels n) = (100 \<le> n)"
    by (simp add: minimum_count_clause_def approved_records_labels)
  show "corrected_text_clause (approved_labels n)"
    by (simp add: corrected_text_clause_def approved_records_labels f)
  show "diversity_clause (approved_labels n)"
    unfolding diversity_clause_def approved_records_labels f distinct_card[OF d]
    by simp
qed

lemma str_nat_99: "str_nat 99 = ''99''" and str_nat_100: "str_nat 100 = ''100''"
  by (simp_all add: str_nat.simps[of 99] str_nat.simps[of 100] str_nat.simps[of 10]
      str_nat.simps[of 9] str_nat.simps[of 1] str_nat.simps[of "Suc 0"])

lemma duplicate_labels_report:
  "generate_training_readiness_report False duplicate_labels =
     Report \<lparr>ready = False, total_samples = 2, approved_samples = 2, minimum_required = 100,
             recommendations = [''Need at least 100 approved samples. Currently have 2.''],
             quality_issues = [''Low text diversity - many duplicate texts detected''],
             training_data_exists = False\<rparr>"
  by (simp add: generate_training_readiness_report_def duplicate_labels_def approved_record_def
      pending_record_def Let_def str_nat_100 str_nat.simps[of "Suc (Suc 0)"] strip_def isspace_def
      lower_def lower_char_def upper_letters_def lower_letters_def)

text \<open>
  With 99 approved records, all with distinct corrected texts, the report is not ready
  and recommends 100; with 100 such records it is ready. Two approved records with the
  texts \<^verbatim>\<open>a\<close> and \<^verbatim>\<open> A \<close> count as one text, which is a quality issue. The
  snapshot without records is not ready and has no quality issue.
\<close>

theorem readiness_policy_witness:
  "approved_labels 99 \<noteq> [] \<and> \<not> minimum_count_clause (approved_labels 99)
   \<and> \<not> ready_of (generate_training_readiness_report False (approved_labels 99))
   \<and> recommendations_of (generate_training_readiness_report False (approved_labels 99))
        = [''Need at least 100 approved samples. Currently have 99.'']
   \<and> issues_of (generate_training_readiness_report False (approved_labels 99)) = []
   \<and> ready_of (generate_training_readiness_report False (approved_labels 100))
   \<and> issues_of (generate_training_readiness_report False (approved_labels 100)) = []
   \<and> \<not> diversity_clause duplicate_labels
   \<and> issues_of (generate_training_readiness_report False duplicate_labels)
        = [''Low text diversity - many duplicate texts detected'']
   \<and> \<not> ready_of (generate_training_readiness_report False duplicate_labels)
   \<and> \<not> ready_of (generate_training_readiness_report False [])
   \<and> issues_of (generate_training_readiness_report False []) = []"
proof -
  have n: "approved_labels 99 \<noteq> []" "approved_labels 100 \<noteq> []" "duplicate_labels \<noteq> []"
    by (simp_all add: approved_labels_def duplicate_labels_def)
  have c99: "\<not> minimum_count_clause (approved_labels 99)"
    by (simp add: clauses_approved_labels)
  have r99: "\<not> ready_of (generate_training_readiness_report False (approved_labels 99))"
    and r100: "ready_of (generate_training_readiness_report False (approved_labels 100))"
    and i99: "issues_of (generate_training_readiness_report False (approved_labels 99)) = []"
    and i100: "issues_of (generate_training_readiness_report False (approved_labels 100)) = []"
    using readiness_policy[of False "approved_labels 99"]
          readiness_policy[of False "approved_labels 100"]
    by (simp_all add: clauses_approved_labels report_nonempty[OF n(1)] report_nonempty[OF n(2)])
  have m99: "recommendations_of (generate_training_readiness_report False (approved_labels 99))
        = [''Need at least 100 approved samples. Currently have 99.'']"
    by (simp add: report_nonempty[OF n(1)] clauses_approved_labels approved_records_labels
        str_nat_99 str_nat_100)
  have id: "issues_of (generate_training_readiness_report False duplicate_labels)
        = [''Low text diversity - many duplicate texts detected'']"
    by (simp add: duplicate_labels_report)
  have d: "\<not> diversity_clause duplicate_labels
     \<and> \<not> ready_of (generate_training_readiness_report False duplicate_labels)"
    using readiness_policy[of False duplicate_labels]
    by (simp add: id)
  have e: "\<not> ready_of (generate_training_readiness_report False [])
     \<and> issues_of (generate_training_readiness_report False []) = []"
    using readiness_policy[of False "[]"]
    by (simp add: report_empty)
  from n c99 r99 r100 i99 i100 m99 id d e show ?thesis by blast
qed

section \<open>The training and validation lists\<close>

lemma set_strip: "set (strip s) \<subseteq> set s"
proof -
  have "set (dropWhile isspace (rev (dropWhile isspace s))) \<subseteq> set (rev (dropWhile isspace s))"
    by (rule set_dropWhileD[THEN subsetI])
  also have "\<dots> \<subseteq> set s"
    using set_dropWhileD[of _ isspace s] by auto
  finally show ?thesis by (simp add: strip_def)
qed

lemma replace_char_removes: "old \<noteq> new \<Longrightarrow> old \<notin> set (replace_char old new s)"
  by (auto simp: replace_char_def)

lemma replace_char_keeps_out: "c \<notin> set s \<Longrightarrow> c \<noteq> new \<Longrightarrow> c \<notin> set (replace_char old new s)"
  by (auto simp: replace_char_def)

lemma sanitize_text_no_break:
  "CHR 0x0A \<notin> set (sanitize_text t)" "CHR 0x09 \<notin> set (sanitize_text t)"
proof -
  let ?t1 = "join '' '' (split t)"
  let ?t2 = "replace_char CHR 0x0D CHR '' ''
               (replace_char CHR 0x0A CHR '' '' (replace_char CHR 0x09 CHR '' '' ?t1))"
  let ?t3 = "if length ?t2 > 1000 then take 1000 ?t2 else ?t2"
  have tab: "CHR 0x09 \<notin> set ?t2"
    by (intro replace_char_keeps_out replace_char_removes) simp_all
  have nl: "CHR 0x0A \<notin> set ?t2"
    by (intro replace_char_keeps_out replace_char_removes) simp_all
  have sub: "set ?t3 \<subseteq> set ?t2"
    by (auto dest: in_set_takeD)
  have "set (sanitize_text t) \<subseteq> set ?t2"
  proof (cases "t = []")
    case True then show ?thesis by (simp add: sanitize_text_def)
  next
    case False
    then have "sanitize_text t = strip ?t3"
      by (simp add: sanitize_text_def Let_def)
    with set_strip[of ?t3] sub show ?thesis by auto
  qed
  with tab nl show "CHR 0x0A \<notin> set (sanitize_text t)" "CHR 0x09 \<notin> set (sanitize_text t)"
    by auto
qed

lemma first_text_no_break:
  "CHR 0x0A \<notin> set (first_text ts) \<and> CHR 0x09 \<notin> set (first_text ts)"
  by (induction ts) (simp_all add: sanitize_text_no_break)

lemma get_best_text_no_break:
  "CHR 0x0A \<notin> set (get_best_text e)" "CHR 0x09 \<notin> set (get_best_text e)"
  unfolding get_best_text_def using first_text_no_break by blast+

lemma prepare_loop_lists:
  "train_list (prepare_loop env lbls st)
     = train_list st @ map (\<lambda>(k, e). file_field e @ [CHR 0x09] @ get_best_text e)
                           (filter (prepared env) lbls)
   \<and> successful_copies (prepare_loop env lbls st)
     = successful_copies st + length (filter (prepared env) lbls)
   \<and> total_approved (prepare_loop env lbls st)
     = total_approved st + length (approved_records lbls)"
proof (induction lbls arbitrary: st)
  case Nil
  then show ?case by (simp add: approved_records_def)
next
  case (Cons p lbls)
  obtain k e where p: "p = (k, e)" by (cases p)
  show ?case
    unfolding p
    by (simp add: Cons.IH prepared_def approved_records_def Let_def split: copy_outcome.splits)
qed

text \<open>
  Claim C10. When the labels load and both lists are written, \<^verbatim>\<open>val.txt\<close> holds
  exactly what \<^verbatim>\<open>train.txt\<close> holds: the entries \<^verbatim>\<open><filename>TAB<text>\<close> of the
  successfully prepared approved records, one per record in the order of the store,
  joined by newlines. The text of an entry is not empty and contains neither a newline
  nor a tab. The counts returned are the number of entries and the number of approved
  records.
\<close>

theorem val_list_copies_train_list:
  assumes "labels_loaded env = Some lbls"
    and "\<not> train_write_raises env" and "\<not> val_write_raises env"
  shows "\<exists>out. prepare_training_data env out0
                 = ((length (filter (prepared env) lbls), length (approved_records lbls)), out)
           \<and> out ''train.txt''
               = Some (join [CHR 0x0A]
                         (map (\<lambda>(k, e). file_field e @ [CHR 0x09] @ get_best_text e)
                              (filter (prepared env) lbls)))
           \<and> out ''val.txt'' = out ''train.txt''
           \<and> (\<forall>(k, e) \<in> set (filter (prepared env) lbls).
                  get_best_text e \<noteq> [] \<and> CHR 0x0A \<notin> set (get_best_text e)
                  \<and> CHR 0x09 \<notin> set (get_best_text e))"
proof -
  let ?st = "prepare_loop env lbls
               \<lparr>train_list = [], successful_copies = 0, total_approved = 0,
                skipped_samples = [], output_dir = out0\<rparr>"
  have l: "train_list ?st = map (\<lambda>(k, e). file_field e @ [CHR 0x09] @ get_best_text e)
                              (filter (prepared env) lbls)"
    and n: "successful_copies ?st = length (filter (prepared env) lbls)"
    and t: "total_approved ?st = length (approved_records lbls)"
    using prepare_loop_lists[of env lbls
        "\<lparr>train_list = [], successful_copies = 0, total_approved = 0,
          skipped_samples = [], output_dir = out0\<rparr>"]
    by simp_all
  have texts: "\<forall>(k, e) \<in> set (filter (prepared env) lbls).
                  get_best_text e \<noteq> [] \<and> CHR 0x0A \<notin> set (get_best_text e)
                  \<and> CHR 0x09 \<notin> set (get_best_text e)"
    by (auto simp: prepared_def get_best_text_no_break)
  show ?thesis
    using assms texts
    by (simp add: prepare_training_data_def Let_def l n t)
qed

lemma split_hello: "split ''  Hello   world '' = [''Hello'', ''world'']"
  by (simp add: Spec2Isabelle.split_def isspace_def)

lemma sanitize_hello: "sanitize_text ''  Hello   world '' = ''Hello world''"
  by (simp add: sanitize_text_def split_hello replace_char_def strip_def isspace_def Let_def)

lemma strip_hello: "strip ''  Hello   world '' \<noteq> []"
  by (simp add: strip_def isspace_def)

lemma training_text: "get_best_text (snd (hd training_labels)) = ''Hello world''"
  by (simp add: training_labels_def pending_record_def get_best_text_def sanitize_hello
      strip_hello)

lemma ext_r1_png: "lower (suffix ''r1.png'') = ''.png''"
  by (simp add: eval_text)

lemma training_prepared:
  "filter (prepared training_env) training_labels = [hd training_labels]"
proof -
  have 1: "prepared training_env (hd training_labels)"
    using training_text
    by (simp add: training_labels_def training_env_def prepared_def pending_record_def
        validate_image_file_def valid_extensions_def ext_r1_png)
  have 2: "\<not> prepared training_env (training_labels ! Suc 0)"
    by (simp add: training_labels_def prepared_def pending_record_def)
  have 3: "\<not> prepared training_env (training_labels ! Suc (Suc 0))"
    by (simp add: training_labels_def training_env_def prepared_def pending_record_def
        validate_image_file_def)
  have l: "training_labels = [hd training_labels, training_labels ! Suc 0, training_labels ! Suc (Suc 0)]"
    by (simp add: training_labels_def)
  show ?thesis
    by (subst l) (simp add: 1 2 3)
qed

text \<open>
  Of the three records only \<^verbatim>\<open>r1\<close> is prepared; both lists hold its one entry, with
  the corrected text cleaned of its extra spaces.
\<close>

theorem val_list_copies_train_list_witness:
  "labels_loaded training_env = Some training_labels
   \<and> \<not> train_write_raises training_env \<and> \<not> val_write_raises training_env
   \<and> (\<exists>out. prepare_training_data training_env Map.empty = ((1, 2), out)
          \<and> out ''train.txt'' = Some (''r1.png'' @ [CHR 0x09] @ ''Hello world'')
          \<and> out ''val.txt'' = Some (''r1.png'' @ [CHR 0x09] @ ''Hello world''))"
proof -
  have h1: "labels_loaded training_env = Some training_labels"
    and h2: "\<not> train_write_raises training_env" and h3: "\<not> val_write_raises training_env"
    by (simp_all add: training_env_def)
  have a: "length (approved_records training_labels) = 2"
    by (simp add: approved_records_def training_labels_def pending_record_def)
  have f: "file_field (snd (hd training_labels)) = ''r1.png''"
    by (simp add: training_labels_def pending_record_def)
  from val_list_copies_train_list[OF h1 h2 h3, of Map.empty]
  have "\<exists>out. prepare_training_data training_env Map.empty = ((1, 2), out)
          \<and> out ''train.txt'' = Some (''r1.png'' @ [CHR 0x09] @ ''Hello world'')
          \<and> out ''val.txt'' = Some (''r1.png'' @ [CHR 0x09] @ ''Hello world'')"
    unfolding training_prepared a
    by (auto simp: case_prod_beta training_text f)
  with h1 h2 h3 show ?thesis by blast
qed

section \<open>Deduplication by content hash\<close>

lemma find_duplicate_Some:
  "find_duplicate h ls = Some (k, e) \<Longrightarrow> (k, e) \<in> set ls \<and> file_hash e = h"
  by (induction h ls rule: find_duplicate.induct) (auto split: if_splits)

lemma find_duplicate_None_iff:
  "find_duplicate h ls = None \<longleftrightarrow> (\<forall>(k, e) \<in> set ls. file_hash e \<noteq> h)"
  by (induction h ls rule: find_duplicate.induct) auto

lemma find_duplicate_update:
  "find_duplicate h ls = None \<Longrightarrow> file_hash m = h
     \<Longrightarrow> find_duplicate h (AList.update k m ls) = Some (k, m)"
  by (induction ls) auto

lemma update_fresh: "k \<notin> fst ` set ls \<Longrightarrow> AList.update k m ls = ls @ [(k, m)]"
  by (induction ls) auto

lemma upload_file_duplicate:
  assumes "passes_validation cfg env f"
    and "find_duplicate (H (contents f)) (labels s) = Some (k, e)"
  shows "upload_file H cfg env f provided s =
           (Inr \<lparr>success = True, upload_id = k, predicted = Some (predicted_text e),
                 message = ''File already exists in system''\<rparr>, s)"
  using assms
  by (simp add: upload_file_def passes_validation_def Let_def)

lemma upload_file_new_succeeds:
  assumes "passes_validation cfg env f"
    and "find_duplicate (H (contents f)) (labels s) = None"
    and "upload_file H cfg env f provided s = (Inr r, s1)"
  shows "\<not> write_raises env \<and> \<not> save_raises env"
  using assms
  by (auto simp: upload_file_def passes_validation_def Let_def add_upload_def save_labels_def
      split: if_splits)

text \<open>What a successful upload does, in its two cases.\<close>

lemma upload_file_success_cases:
  assumes v: "passes_validation cfg env f"
    and u: "upload_file H cfg env f provided s = (Inr r, s1)"
  shows "(\<exists>k e. find_duplicate (H (contents f)) (labels s) = Some (k, e)
            \<and> upload_id r = k \<and> s1 = s)
       \<or> (\<exists>m. find_duplicate (H (contents f)) (labels s) = None
            \<and> upload_id r = uuid4 env
            \<and> file_hash m = H (contents f)
            \<and> file_field m = uuid4 env @ resolve_ext f
            \<and> labels s1 = AList.update (uuid4 env) m (labels s)
            \<and> images s1 = (images s)(uuid4 env @ resolve_ext f \<mapsto> contents f))"
proof (cases "find_duplicate (H (contents f)) (labels s)")
  case None
  from upload_file_new_succeeds[OF v None u]
  have w: "\<not> write_raises env" "\<not> save_raises env" by simp_all
  let ?m = "create_metadata env f provided (uuid4 env @ resolve_ext f) (H (contents f))
              (if USE_OCR cfg then run_ocr cfg (ocr env) else None)"
  from u have r: "upload_id r = uuid4 env"
    and l: "labels s1 = AList.update (uuid4 env) ?m (labels s)"
    and i: "images s1 = (images s)(uuid4 env @ resolve_ext f \<mapsto> contents f)"
    unfolding upload_file_new[where H=H and provided=provided, OF v None w]
    by auto
  have "file_hash ?m = H (contents f)" "file_field ?m = uuid4 env @ resolve_ext f"
    by (simp_all add: create_metadata_def)
  with None r l i show ?thesis by blast
next
  case (Some p)
  obtain k e where p: "p = (k, e)" by (cases p)
  from u have "upload_id r = k" "s1 = s"
    unfolding upload_file_duplicate[where H=H and provided=provided, OF v Some[unfolded p]]
    by auto
  with Some p show ?thesis by blast
qed

lemma reupload_same_id:
  assumes v: "passes_validation cfg env f"
    and u: "upload_file H cfg env f provided s = (Inr r, s1)"
    and v2: "passes_validation cfg env2 f2"
    and c: "contents f2 = contents f"
  shows "\<exists>r2. upload_file H cfg env2 f2 provided2 s1 = (Inr r2, s1) \<and> upload_id r2 = upload_id r"
proof -
  from upload_file_success_cases[OF v u]
  have "\<exists>e. find_duplicate (H (contents f2)) (labels s1) = Some (upload_id r, e)"
    unfolding c by (auto simp: find_duplicate_update)
  then obtain e where "find_duplicate (H (contents f2)) (labels s1) = Some (upload_id r, e)" ..
  from upload_file_duplicate[where H=H and provided=provided2, OF v2 this]
  show ?thesis by simp
qed

lemma allowed_extension_shape:
  "ext \<in> set ALLOWED_EXTENSIONS \<Longrightarrow> \<exists>t. ext = CHR ''.'' # t \<and> CHR ''.'' \<notin> set t"
  by (auto simp: ALLOWED_EXTENSIONS_def)

lemma stored_names_differ:
  assumes "ext \<in> set ALLOWED_EXTENSIONS" and "ext2 \<in> set ALLOWED_EXTENSIONS"
    and "u @ ext = u2 @ ext2"
  shows "u = u2"
proof -
  from allowed_extension_shape[OF assms(1)] obtain t where
    t: "ext = CHR ''.'' # t" "CHR ''.'' \<notin> set t" by blast
  from allowed_extension_shape[OF assms(2)] obtain t2 where
    t2: "ext2 = CHR ''.'' # t2" "CHR ''.'' \<notin> set t2" by blast
  have tw: "\<And>v w. CHR ''.'' \<notin> set w \<Longrightarrow>
              takeWhile (\<lambda>c. c \<noteq> CHR ''.'') (rev (v @ CHR ''.'' # w)) = rev w"
    by (auto simp: takeWhile_tail)
  from assms(3) have "rev (u @ CHR ''.'' # t) = rev (u2 @ CHR ''.'' # t2)"
    by (simp add: t t2)
  then have "takeWhile (\<lambda>c. c \<noteq> CHR ''.'') (rev (u @ CHR ''.'' # t))
             = takeWhile (\<lambda>c. c \<noteq> CHR ''.'') (rev (u2 @ CHR ''.'' # t2))"
    by simp
  then have "t = t2"
    using tw[OF t(2)] tw[OF t2(2)] by simp
  with assms(3) show ?thesis by (simp add: t t2)
qed

lemma distinct_uploads_distinct_ids:
  assumes v: "passes_validation cfg env f" and v2: "passes_validation cfg env2 f2"
    and h: "H (contents f) \<noteq> H (contents f2)"
    and d: "distinct (map fst (labels s))"
    and fr: "uuid4 env \<notin> fst ` set (labels s)"
    and u: "upload_file H cfg env f provided s = (Inr r, s1)"
    and fr2: "uuid4 env2 \<notin> fst ` set (labels s1)"
    and u2: "upload_file H cfg env2 f2 provided2 s1 = (Inr r2, s2)"
  shows "upload_id r \<noteq> upload_id r2"
proof -
  have in1: "upload_id r \<in> fst ` set (labels s1)"
    using upload_file_success_cases[OF v u] fr
    by (auto simp: update_fresh dest!: find_duplicate_Some intro: rev_image_eqI)
  from upload_file_success_cases[OF v2 u2]
  show ?thesis
  proof (elim disjE exE conjE)
    fix m assume "upload_id r2 = uuid4 env2"
    with fr2 in1 show ?thesis by metis
  next
    fix k2 e2
    assume f2: "find_duplicate (H (contents f2)) (labels s1) = Some (k2, e2)"
      and id2: "upload_id r2 = k2"
    from find_duplicate_Some[OF f2] have m2: "(k2, e2) \<in> set (labels s1)"
      and h2: "file_hash e2 = H (contents f2)" by simp_all
    from upload_file_success_cases[OF v u]
    show ?thesis
    proof (elim disjE exE conjE)
      fix k e
      assume f1: "find_duplicate (H (contents f)) (labels s) = Some (k, e)"
        and id1: "upload_id r = k" and s1: "s1 = s"
      from find_duplicate_Some[OF f1] have m1: "(k, e) \<in> set (labels s)"
        and h1: "file_hash e = H (contents f)" by simp_all
      have "k \<noteq> k2"
      proof
        assume "k = k2"
        with m1 m2 s1 d have "e = e2"
          by (auto dest: eq_key_imp_eq_value)
        with h1 h2 h show False by simp
      qed
      with id1 id2 show ?thesis by simp
    next
      fix m
      assume id1: "upload_id r = uuid4 env"
        and hm: "file_hash m = H (contents f)"
        and l1: "labels s1 = AList.update (uuid4 env) m (labels s)"
      from l1 fr have "labels s1 = labels s @ [(uuid4 env, m)]"
        by (simp add: update_fresh)
      with m2 h2 hm h have "(k2, e2) \<in> set (labels s)" by auto
      then have "k2 \<in> fst ` set (labels s)" by (auto intro: rev_image_eqI)
      with fr id1 id2 show ?thesis by metis
    qed
  qed
qed

lemma distinct_uploads_distinct_files:
  assumes v: "passes_validation cfg env f" and v2: "passes_validation cfg env2 f2"
    and h: "H (contents f) \<noteq> H (contents f2)"
    and n: "find_duplicate (H (contents f)) (labels s) = None"
    and n2: "find_duplicate (H (contents f2)) (labels s) = None"
    and fr: "uuid4 env \<notin> fst ` set (labels s)"
    and u: "upload_file H cfg env f provided s = (Inr r, s1)"
    and fr2: "uuid4 env2 \<notin> fst ` set (labels s1)"
    and u2: "upload_file H cfg env2 f2 provided2 s1 = (Inr r2, s2)"
  shows "uuid4 env @ resolve_ext f \<noteq> uuid4 env2 @ resolve_ext f2
         \<and> images s2 (uuid4 env @ resolve_ext f) = Some (contents f)
         \<and> images s2 (uuid4 env2 @ resolve_ext f2) = Some (contents f2)
         \<and> map_option file_field (map_of (labels s2) (upload_id r)) = Some (uuid4 env @ resolve_ext f)
         \<and> map_option file_field (map_of (labels s2) (upload_id r2)) = Some (uuid4 env2 @ resolve_ext f2)"
proof -
  from upload_file_success_cases[OF v u] n obtain m where
    1: "upload_id r = uuid4 env" "file_hash m = H (contents f)"
       "file_field m = uuid4 env @ resolve_ext f"
       "labels s1 = AList.update (uuid4 env) m (labels s)"
       "images s1 = (images s)(uuid4 env @ resolve_ext f \<mapsto> contents f)"
    by auto
  have l1: "labels s1 = labels s @ [(uuid4 env, m)]"
    using 1(4) fr by (simp add: update_fresh)
  have n2': "find_duplicate (H (contents f2)) (labels s1) = None"
    using n2 h 1(2) by (auto simp: find_duplicate_None_iff l1)
  from upload_file_success_cases[OF v2 u2] n2' obtain m2 where
    2: "upload_id r2 = uuid4 env2" "file_hash m2 = H (contents f2)"
       "file_field m2 = uuid4 env2 @ resolve_ext f2"
       "labels s2 = AList.update (uuid4 env2) m2 (labels s1)"
       "images s2 = (images s1)(uuid4 env2 @ resolve_ext f2 \<mapsto> contents f2)"
    by auto
  have ids: "uuid4 env \<noteq> uuid4 env2"
    using fr2 by (auto simp: l1)
  then have names: "uuid4 env @ resolve_ext f \<noteq> uuid4 env2 @ resolve_ext f2"
    using stored_names_differ[OF resolve_ext_allowed resolve_ext_allowed] by blast
  have a: "map_of (labels s2) (uuid4 env) = Some m"
    using ids by (simp add: 2(4) 1(4) update_conv')
  have b: "map_of (labels s2) (uuid4 env2) = Some m2"
    by (simp add: 2(4) update_conv')
  show ?thesis
    using names by (simp add: 1(1,3,5) 2(1,3,5) a b)
qed

text \<open>
  Claim C1. The hash function and the fresh id are collaborators; the store is a dict
  (its keys are distinct) and \<^verbatim>\<open>uuid4\<close> returns an id that is not yet a key.
  First, an upload that passes validation and whose hash is the hash of a record of
  the store returns success with the id and the predicted text of a record with that
  hash (the first one), and leaves the store, the labels file and the images
  directory as they are. Second, after any successful upload, every later valid upload
  of the same bytes returns the same id and changes nothing, so it does every time.
  Third, two successful valid uploads with different hashes get different ids, and
  when neither content was in the store before, they are stored under different file
  names, each with its own bytes.
\<close>

theorem upload_deduplicates:
  "(passes_validation cfg env f \<and> (k0, e0) \<in> set (labels s) \<and> file_hash e0 = H (contents f) \<longrightarrow>
      (\<exists>k e. (k, e) \<in> set (labels s) \<and> file_hash e = H (contents f)
         \<and> find_duplicate (H (contents f)) (labels s) = Some (k, e)
         \<and> upload_file H cfg env f provided s =
             (Inr \<lparr>success = True, upload_id = k, predicted = Some (predicted_text e),
                   message = ''File already exists in system''\<rparr>, s)))
   \<and> (passes_validation cfg env f \<and> upload_file H cfg env f provided s = (Inr r, s1)
        \<and> passes_validation cfg env2 f2 \<and> contents f2 = contents f \<longrightarrow>
      (\<exists>r2. upload_file H cfg env2 f2 provided2 s1 = (Inr r2, s1) \<and> upload_id r2 = upload_id r))
   \<and> (passes_validation cfg env f \<and> passes_validation cfg env3 f3
        \<and> H (contents f) \<noteq> H (contents f3)
        \<and> distinct (map fst (labels s)) \<and> uuid4 env \<notin> fst ` set (labels s)
        \<and> upload_file H cfg env f provided s = (Inr r, s1)
        \<and> uuid4 env3 \<notin> fst ` set (labels s1)
        \<and> upload_file H cfg env3 f3 provided3 s1 = (Inr r3, s3) \<longrightarrow>
      upload_id r \<noteq> upload_id r3
      \<and> (find_duplicate (H (contents f)) (labels s) = None
           \<and> find_duplicate (H (contents f3)) (labels s) = None \<longrightarrow>
          uuid4 env @ resolve_ext f \<noteq> uuid4 env3 @ resolve_ext f3
          \<and> images s3 (uuid4 env @ resolve_ext f) = Some (contents f)
          \<and> images s3 (uuid4 env3 @ resolve_ext f3) = Some (contents f3)
          \<and> map_option file_field (map_of (labels s3) (upload_id r)) = Some (uuid4 env @ resolve_ext f)
          \<and> map_option file_field (map_of (labels s3) (upload_id r3)) = Some (uuid4 env3 @ resolve_ext f3)))"
proof (intro conjI impI)
  assume a: "passes_validation cfg env f \<and> (k0, e0) \<in> set (labels s) \<and> file_hash e0 = H (contents f)"
  then have "find_duplicate (H (contents f)) (labels s) \<noteq> None"
    by (auto simp: find_duplicate_None_iff)
  then obtain k e where fd: "find_duplicate (H (contents f)) (labels s) = Some (k, e)"
    by auto
  from find_duplicate_Some[OF fd] fd
       upload_file_duplicate[where H=H and provided=provided, OF conjunct1[OF a] fd]
  show "\<exists>k e. (k, e) \<in> set (labels s) \<and> file_hash e = H (contents f)
         \<and> find_duplicate (H (contents f)) (labels s) = Some (k, e)
         \<and> upload_file H cfg env f provided s =
             (Inr \<lparr>success = True, upload_id = k, predicted = Some (predicted_text e),
                   message = ''File already exists in system''\<rparr>, s)"
    by blast
next
  assume "passes_validation cfg env f \<and> upload_file H cfg env f provided s = (Inr r, s1)
        \<and> passes_validation cfg env2 f2 \<and> contents f2 = contents f"
  then show "\<exists>r2. upload_file H cfg env2 f2 provided2 s1 = (Inr r2, s1) \<and> upload_id r2 = upload_id r"
    using reupload_same_id[where H=H] by blast
next
  assume a: "passes_validation cfg env f \<and> passes_validation cfg env3 f3
        \<and> H (contents f) \<noteq> H (contents f3)
        \<and> distinct (map fst (labels s)) \<and> uuid4 env \<notin> fst ` set (labels s)
        \<and> upload_file H cfg env f provided s = (Inr r, s1)
        \<and> uuid4 env3 \<notin> fst ` set (labels s1)
        \<and> upload_file H cfg env3 f3 provided3 s1 = (Inr r3, s3)"
  then show "upload_id r \<noteq> upload_id r3"
    using distinct_uploads_distinct_ids[where H=H and f=f and ?f2.0=f3] by blast
  assume "find_duplicate (H (contents f)) (labels s) = None
           \<and> find_duplicate (H (contents f3)) (labels s) = None"
  with a show "uuid4 env @ resolve_ext f \<noteq> uuid4 env3 @ resolve_ext f3"
    "images s3 (uuid4 env @ resolve_ext f) = Some (contents f)"
    "images s3 (uuid4 env3 @ resolve_ext f3) = Some (contents f3)"
    "map_option file_field (map_of (labels s3) (upload_id r)) = Some (uuid4 env @ resolve_ext f)"
    "map_option file_field (map_of (labels s3) (upload_id r3)) = Some (uuid4 env3 @ resolve_ext f3)"
    using distinct_uploads_distinct_files[where H=H and f=f and ?f2.0=f3 and s=s and ?s1.0=s1
        and ?s2.0=s3 and r=r and ?r2.0=r3 and env=env and ?env2.0=env3 and cfg=cfg
        and provided=provided and ?provided2.0=provided3]
    by blast+
qed

lemma png_upload_passes:
  "passes_validation default_config (quiet_env i) (png_upload ''abc'')"
  "passes_validation default_config (quiet_env i) (png_upload ''xyz'')"
  by (simp_all add: passes_validation_def validate_file_def eval_examples eval_ext)

lemma png_upload_ext: "resolve_ext (png_upload c) = ''.png''"
  by (simp add: resolve_ext_def png_upload_def startswith_def mime_to_ext_def)

lemma quiet_ocr: "run_ocr default_config (ocr (quiet_env i)) = Some ''hello''"
  by (simp add: run_ocr_def default_config_def quiet_env_def)

lemma first_upload:
  "upload_file toy_hash default_config (quiet_env ''u1'') (png_upload ''abc'') None empty_server
     = (Inr \<lparr>success = True, upload_id = ''u1'', predicted = Some ''hello'',
             message = ''Upload successful''\<rparr>, one_upload_server)"
proof -
  have n: "find_duplicate (toy_hash (contents (png_upload ''abc''))) (labels empty_server) = None"
    by (simp add: empty_server_def)
  have w: "\<not> write_raises (quiet_env ''u1'')" "\<not> save_raises (quiet_env ''u1'')"
    by (simp_all add: quiet_env_def)
  have u: "USE_OCR default_config" by (simp add: default_config_def)
  show ?thesis
    unfolding upload_file_new[where H=toy_hash and provided=None, OF png_upload_passes(1) n w]
      png_upload_ext quiet_ocr
    using u
    by (simp add: one_upload_server_def empty_server_def toy_hash_def png_upload_def quiet_env_def)
qed

lemma second_upload:
  "\<exists>r3 s3. upload_file toy_hash default_config (quiet_env ''u2'') (png_upload ''xyz'') None
              one_upload_server = (Inr r3, s3)"
proof -
  have n: "find_duplicate (toy_hash (contents (png_upload ''xyz''))) (labels one_upload_server) = None"
    by (simp add: one_upload_server_def toy_hash_def png_upload_def create_metadata_def)
  have w: "\<not> write_raises (quiet_env ''u2'')" "\<not> save_raises (quiet_env ''u2'')"
    by (simp_all add: quiet_env_def)
  show ?thesis
    unfolding upload_file_new[where H=toy_hash and provided=None, OF png_upload_passes(2) n w]
    by blast
qed

text \<open>
  In the empty service \<^verbatim>\<open>abc\<close> is stored as \<^verbatim>\<open>u1\<close>. Uploading \<^verbatim>\<open>abc\<close> again,
  when \<^verbatim>\<open>uuid4\<close> would give \<^verbatim>\<open>u2\<close>, returns \<^verbatim>\<open>u1\<close> and its predicted text
  and changes nothing; uploading \<^verbatim>\<open>xyz\<close> is stored as \<^verbatim>\<open>u2\<close> in its own file.
\<close>

theorem upload_deduplicates_witness:
  "passes_validation default_config (quiet_env ''u1'') (png_upload ''abc'')
   \<and> passes_validation default_config (quiet_env ''u2'') (png_upload ''abc'')
   \<and> passes_validation default_config (quiet_env ''u2'') (png_upload ''xyz'')
   \<and> toy_hash (contents (png_upload ''abc'')) \<noteq> toy_hash (contents (png_upload ''xyz''))
   \<and> upload_file toy_hash default_config (quiet_env ''u1'') (png_upload ''abc'') None empty_server
       = (Inr \<lparr>success = True, upload_id = ''u1'', predicted = Some ''hello'',
               message = ''Upload successful''\<rparr>, one_upload_server)
   \<and> upload_file toy_hash default_config (quiet_env ''u2'') (png_upload ''abc'') None one_upload_server
       = (Inr \<lparr>success = True, upload_id = ''u1'', predicted = Some ''hello'',
               message = ''File already exists in system''\<rparr>, one_upload_server)
   \<and> (\<exists>r2. upload_file toy_hash default_config (quiet_env ''u2'') (png_upload ''abc'') None
               one_upload_server = (Inr r2, one_upload_server) \<and> upload_id r2 = ''u1'')
   \<and> (\<exists>r3 s3. upload_file toy_hash default_config (quiet_env ''u2'') (png_upload ''xyz'') None
                  one_upload_server = (Inr r3, s3)
          \<and> upload_id r3 \<noteq> ''u1''
          \<and> images s3 ''u1.png'' = Some ''abc'' \<and> images s3 ''u2.png'' = Some ''xyz'')"
proof -
  let ?m = "create_metadata (quiet_env ''u1'') (png_upload ''abc'') None ''u1.png'' ''abc'' (Some ''hello'')"
  have h: "toy_hash (contents (png_upload ''abc'')) \<noteq> toy_hash (contents (png_upload ''xyz''))"
    by (simp add: toy_hash_def png_upload_def)
  have l: "labels one_upload_server = [(''u1'', ?m)]"
    by (simp add: one_upload_server_def)
  have mh: "file_hash ?m = toy_hash (contents (png_upload ''abc''))"
    and mp: "predicted_text ?m = ''hello''"
    by (simp_all add: create_metadata_def toy_hash_def png_upload_def or_empty_def)
  have part1: "upload_file toy_hash default_config (quiet_env ''u2'') (png_upload ''abc'') None one_upload_server
       = (Inr \<lparr>success = True, upload_id = ''u1'', predicted = Some ''hello'',
               message = ''File already exists in system''\<rparr>, one_upload_server)"
    using upload_deduplicates[where H=toy_hash and cfg=default_config and env="quiet_env ''u2''"
        and f="png_upload ''abc''" and s=one_upload_server and ?k0.0="''u1''" and ?e0.0="?m"
        and provided=None]
      png_upload_passes(1)[of "''u2''"] mh mp
    by (auto simp: l)
  have part2: "\<exists>r2. upload_file toy_hash default_config (quiet_env ''u2'') (png_upload ''abc'') None
               one_upload_server = (Inr r2, one_upload_server) \<and> upload_id r2 = ''u1''"
    using upload_deduplicates[where H=toy_hash and cfg=default_config and env="quiet_env ''u1''"
        and f="png_upload ''abc''" and s=empty_server and provided=None
        and r="\<lparr>success = True, upload_id = ''u1'', predicted = Some ''hello'',
               message = ''Upload successful''\<rparr>"
        and ?s1.0=one_upload_server and ?env2.0="quiet_env ''u2''" and ?f2.0="png_upload ''abc''"
        and ?provided2.0=None]
      png_upload_passes(1) first_upload
    by simp
  obtain r3 s3 where u3: "upload_file toy_hash default_config (quiet_env ''u2'') (png_upload ''xyz'') None
                  one_upload_server = (Inr r3, s3)"
    using second_upload by blast
  have fr: "distinct (map fst (labels empty_server))"
      "uuid4 (quiet_env ''u1'') \<notin> fst ` set (labels empty_server)"
      "uuid4 (quiet_env ''u2'') \<notin> fst ` set (labels one_upload_server)"
      "find_duplicate (toy_hash (contents (png_upload ''abc''))) (labels empty_server) = None"
      "find_duplicate (toy_hash (contents (png_upload ''xyz''))) (labels empty_server) = None"
    by (simp_all add: empty_server_def l quiet_env_def)
  have u: "uuid4 (quiet_env ''u1'') = ''u1''" "uuid4 (quiet_env ''u2'') = ''u2''"
    "contents (png_upload ''abc'') = ''abc''" "contents (png_upload ''xyz'') = ''xyz''"
    by (simp_all add: quiet_env_def png_upload_def)
  have part3: "upload_id r3 \<noteq> ''u1''
          \<and> images s3 ''u1.png'' = Some ''abc'' \<and> images s3 ''u2.png'' = Some ''xyz''"
    using upload_deduplicates[where H=toy_hash and cfg=default_config and env="quiet_env ''u1''"
        and f="png_upload ''abc''" and s=empty_server and provided=None
        and r="\<lparr>success = True, upload_id = ''u1'', predicted = Some ''hello'',
               message = ''Upload successful''\<rparr>"
        and ?s1.0=one_upload_server and ?env3.0="quiet_env ''u2''" and ?f3.0="png_upload ''xyz''"
        and ?provided3.0=None and ?r3.0=r3 and ?s3.0=s3]
      png_upload_passes h first_upload u3 fr
    by (auto simp: png_upload_ext u)
  from png_upload_passes h first_upload part1 part2 u3 part3 show ?thesis by blast
qed

end
